theory Spec2Isabelle
  imports Main
begin

section \<open>The handoff helper \<open>socket_binder.c\<close> as a trace-producing program\<close>

text \<open>
  The program is a straight line of library and system calls, each followed by a check
  of its return value. The embedding makes the outside world explicit: an \<open>env\<close>
  record holds what every call site gets back from the operating system, and each
  function returns the list of calls it made (with their arguments and results)
  together with either the value it returns or the status with which \<open>err\<close> ended
  the process.
\<close>

subsection \<open>Vocabulary of the headers\<close>

text \<open>
  The symbolic constants of \<open>fcntl.h\<close> and \<open>sys/socket.h\<close>. The source uses
  \<open>O_DIRECTORY\<close>, \<open>O_CLOEXEC\<close>, \<open>AF_UNIX\<close>, \<open>SOCK_STREAM\<close>, \<open>SOCK_CLOEXEC\<close>,
  \<open>SOL_SOCKET\<close> and \<open>SCM_RIGHTS\<close>; the other constructors are the neighbouring
  constants that the properties below distinguish them from.
\<close>

datatype open_flag = O_DIRECTORY | O_CLOEXEC | O_NOFOLLOW | O_PATH

datatype sock_domain = AF_UNIX | AF_INET

datatype sock_type = SOCK_STREAM | SOCK_DGRAM | SOCK_SEQPACKET

datatype sock_flag = SOCK_CLOEXEC | SOCK_NONBLOCK

datatype cmsg_level = SOL_SOCKET | SOL_OTHER

datatype cmsg_type = SCM_RIGHTS | SCM_CREDENTIALS

text \<open>\<open>struct sockaddr_un\<close>: the family tag and the NUL-terminated path held in \<open>sun_path\<close>.\<close>

record sockaddr_un =
  sun_family :: sock_domain
  sun_path :: string

text \<open>
  \<open>struct cmsghdr\<close> with its payload. \<open>cmsg_len = CMSG_LEN(sizeof(int))\<close> leaves room
  for one \<open>int\<close> after the header, so the payload is the list of descriptors stored
  there and its length stands for \<open>cmsg_len\<close>.
\<close>

record cmsghdr =
  cmsg_level :: cmsg_level
  cmsg_type :: cmsg_type
  cmsg_data :: "int list"

text \<open>
  \<open>struct msghdr\<close>: \<open>msg_name\<close> is \<open>None\<close> for \<open>NULL\<close> (with
  \<open>msg_namelen = 0\<close>); \<open>msg_iov\<close> lists the bytes of each \<open>iovec\<close>, so its length
  is \<open>msg_iovlen\<close>; \<open>msg_control\<close> lists the control blocks that lie within
  \<open>msg_controllen\<close> bytes of the control buffer.
\<close>

record msghdr =
  msg_name :: "string option"
  msg_iov :: "char list list"
  msg_control :: "cmsghdr list"
  msg_flags :: int

subsection \<open>Calls and runs\<close>

text \<open>
  One constructor per call the source makes; the last argument of a call that returns
  something is what it returned. Arguments that are the same in every call are left
  out: the address length \<open>sizeof(addr)\<close> of \<open>bind\<close> and the two \<open>NULL\<close>s of
  \<open>accept4\<close>. \<open>Snprintf n s w r\<close> formats \<open>s\<close> into a buffer of
  \<open>n\<close> bytes, leaving \<open>w\<close> there and returning \<open>r\<close>. \<open>Err st m\<close> is \<open>err(st, m)\<close>:
  the message \<open>m\<close> goes to standard error and the process exits with status \<open>st\<close>.
\<close>

datatype event =
    Getenv string "string option"
  | Asprintf string int
  | Mkdtemp string "string option"
  | Open_dir string "open_flag set" int
  | Snprintf nat string string int
  | Socket sock_domain sock_type int int
  | Bind int sockaddr_un int
  | Listen int int int
  | Dprintf int string
  | Close int int
  | Accept4 int "sock_flag set" int
  | Unlinkat int string int int
  | Sendmsg int msghdr int int
  | Free string
  | Err int string

datatype 'a outcome = Exit int | Returns 'a

type_synonym 'a run = "event list \<times> 'a outcome"

text \<open>What the four calls inside one \<open>listen_unix_socket\<close> get back.\<close>

record listen_env =
  snprintf_fails :: bool
  socket_ret :: int
  bind_ret :: int
  listen_ret :: int

text \<open>
  What every call site of the program gets back. \<open>sizeof_sun_path\<close> is
  \<open>sizeof(addr.sun_path)\<close>, fixed by \<open>sys/un.h\<close> (108 on Linux). \<open>mkdtemp_pick\<close> is
  the suffix \<open>mkdtemp\<close> writes over the six \<open>X\<close>s, \<open>None\<close> when it fails. The
  return values are C \<open>int\<close>s; the program only compares them with 0 and prints
  them, so they are kept as integers, and a property that needs their range says so.
  \<open>dprintf\<close> has no entry: the source ignores what it returns.
\<close>

record env =
  sizeof_sun_path :: nat
  env_XDG_RUNTIME_DIR :: "string option"
  env_TMPDIR :: "string option"
  asprintf_fails :: bool
  mkdtemp_pick :: "string option"
  open_ret :: int
  data_calls :: listen_env
  pass_calls :: listen_env
  close_stdout_ret :: int
  accept4_ret :: int
  close_passsock_ret :: int
  unlinkat_ret :: int
  sendmsg_ret :: int
  close_connsock_ret :: int
  close_datasock_ret :: int
  close_dirfd_ret :: int

subsection \<open>Formatting\<close>

text \<open>The conversion \<open>%d\<close>: decimal digits, with a minus sign for a negative value.\<close>

definition digit_char :: "nat \<Rightarrow> char" where
  "digit_char d = ''0123456789'' ! (d mod 10)"

fun show_nat :: "nat \<Rightarrow> string" where
  "show_nat n = (if n < 10 then [digit_char n] else show_nat (n div 10) @ [digit_char (n mod 10)])"

declare show_nat.simps [simp del]

definition show_int :: "int \<Rightarrow> string" where
  "show_int i = (if i < 0 then CHR ''-'' # show_nat (nat (- i)) else show_nat (nat i))"

text \<open>The result of the format \<open>"/proc/self/fd/%d/%s"\<close>.\<close>

definition proc_fd_path :: "int \<Rightarrow> string \<Rightarrow> string" where
  "proc_fd_path dirfd name = ''/proc/self/fd/'' @ show_int dirfd @ ''/'' @ name"

text \<open>
  \<open>snprintf(buf, n, ...)\<close> on a zeroed buffer: at most \<open>n - 1\<close> characters of the
  formatted text are stored, and the length of the whole text is returned.
\<close>

definition snprintf_stored :: "nat \<Rightarrow> string \<Rightarrow> string" where
  "snprintf_stored n s = take (n - 1) s"

subsection \<open>The three functions of the source\<close>

definition make_private_dir :: "env \<Rightarrow> string run" where
  "make_private_dir e =
    (let xdg = env_XDG_RUNTIME_DIR e;
         t1 = [Getenv ''XDG_RUNTIME_DIR'' xdg];
         t2 = (case xdg of None \<Rightarrow> t1 @ [Getenv ''TMPDIR'' (env_TMPDIR e)] | Some _ \<Rightarrow> t1);
         tmpdir = (case xdg of Some d \<Rightarrow> d
                   | None \<Rightarrow> (case env_TMPDIR e of Some d \<Rightarrow> d | None \<Rightarrow> ''/tmp''));
         template = tmpdir @ ''/XXXXXX'';
         r = (if asprintf_fails e then - 1 else int (length template));
         t3 = t2 @ [Asprintf template r]
     in if r < 0 then (t3 @ [Err 1 ''asprintf''], Exit 1)
        else
          let dirname = map_option (\<lambda>sfx. take (length template - 6) template @ sfx)
                          (mkdtemp_pick e);
              t4 = t3 @ [Mkdtemp template dirname]
          in (case dirname of
                None \<Rightarrow> (t4 @ [Err 1 ''mkdtemp''], Exit 1)
              | Some d \<Rightarrow> (t4, Returns d)))"

definition listen_unix_socket :: "nat \<Rightarrow> listen_env \<Rightarrow> int \<Rightarrow> string \<Rightarrow> int run" where
  "listen_unix_socket sz le dirfd name =
    (let full = proc_fd_path dirfd name;
         addr = \<lparr>sun_family = AF_UNIX, sun_path = snprintf_stored sz full\<rparr>;
         ret = (if snprintf_fails le then - 1 else int (length full));
         t1 = [Snprintf sz full (sun_path addr) ret]
     in if ret < 0 then (t1 @ [Err 1 ''snprintf''], Exit 1)
        else
          let sockfd = socket_ret le;
              t2 = t1 @ [Socket AF_UNIX SOCK_STREAM 0 sockfd]
          in if sockfd < 0 then (t2 @ [Err 1 ''socket''], Exit 1)
             else
               let t3 = t2 @ [Bind sockfd addr (bind_ret le)]
               in if bind_ret le < 0 then (t3 @ [Err 1 ''bind''], Exit 1)
                  else
                    let t4 = t3 @ [Listen sockfd 10 (listen_ret le)]
                    in if listen_ret le < 0 then (t4 @ [Err 1 ''listen''], Exit 1)
                       else (t4, Returns sockfd))"

text \<open>The message built at lines 62 to 85: one byte of payload, one control block.\<close>

definition handoff_msg :: "int \<Rightarrow> msghdr" where
  "handoff_msg datasock =
     \<lparr>msg_name = None,
      msg_iov = [[CHR 0x00]],
      msg_control = [\<lparr>cmsg_level = SOL_SOCKET, cmsg_type = SCM_RIGHTS, cmsg_data = [datasock]\<rparr>],
      msg_flags = 0\<rparr>"

definition sendmsg_diag :: "int \<Rightarrow> int \<Rightarrow> string" where
  "sendmsg_diag connsock datasock =
     ''sendmsg(connsock='' @ show_int connsock @ '', {msg={datasock='' @ show_int datasock @ ''}})''"

definition main :: "env \<Rightarrow> int run" where
  "main e =
    (case make_private_dir e of
       (t0, Exit st) \<Rightarrow> (t0, Exit st)
     | (t0, Returns dir) \<Rightarrow>
     let dirfd = open_ret e;
         t1 = t0 @ [Open_dir dir {O_DIRECTORY, O_CLOEXEC} dirfd]
     in if dirfd < 0 then (t1 @ [Err 1 ''open''], Exit 1)
     else
     (case listen_unix_socket (sizeof_sun_path e) (data_calls e) dirfd ''data'' of
        (ta, Exit st) \<Rightarrow> (t1 @ ta, Exit st)
      | (ta, Returns datasock) \<Rightarrow>
     let t2 = t1 @ ta @ [Dprintf 1 (dir @ ''/data\<newline>'')]
     in
     (case listen_unix_socket (sizeof_sun_path e) (pass_calls e) dirfd ''pass'' of
        (tb, Exit st) \<Rightarrow> (t2 @ tb, Exit st)
      | (tb, Returns passsock) \<Rightarrow>
     let t3 = t2 @ tb @ [Dprintf 1 (dir @ ''/pass\<newline>''), Dprintf 1 ''done\<newline>'',
                         Close 1 (close_stdout_ret e)]
     in if close_stdout_ret e < 0 then (t3 @ [Err 1 ''close(1)''], Exit 1)
     else
     let connsock = accept4_ret e;
         t4 = t3 @ [Accept4 passsock {SOCK_CLOEXEC} connsock]
     in if connsock < 0 then (t4 @ [Err 1 ''accept4(passsock)''], Exit 1)
     else
     let t5 = t4 @ [Close passsock (close_passsock_ret e)]
     in if close_passsock_ret e < 0 then (t5 @ [Err 1 ''close(passsock)''], Exit 1)
     else
     let t6 = t5 @ [Unlinkat dirfd ''pass'' 0 (unlinkat_ret e)]
     in if unlinkat_ret e < 0 then (t6 @ [Err 1 ''unlinkat''], Exit 1)
     else
     let t7 = t6 @ [Sendmsg connsock (handoff_msg datasock) 0 (sendmsg_ret e)]
     in if sendmsg_ret e < 0 then (t7 @ [Err 1 (sendmsg_diag connsock datasock)], Exit 1)
     else
     let t8 = t7 @ [Close connsock (close_connsock_ret e)]
     in if close_connsock_ret e < 0 then (t8 @ [Err 1 ''close(connsock)''], Exit 1)
     else
     let t9 = t8 @ [Free dir, Close datasock (close_datasock_ret e)]
     in if close_datasock_ret e < 0 then (t9 @ [Err 1 ''close(connsock)''], Exit 1)
     else
     let t10 = t9 @ [Close dirfd (close_dirfd_ret e)]
     in if close_dirfd_ret e < 0 then (t10 @ [Err 1 ''close(connsock)''], Exit 1)
     else (t10, Returns 0))))"

text \<open>The status the process ends with: that of \<open>err\<close>, or what \<open>main\<close> returns.\<close>

fun exit_status :: "int run \<Rightarrow> int" where
  "exit_status (t, Exit st) = st"
| "exit_status (t, Returns v) = v"

subsection \<open>What the calls do to the kernel's objects\<close>

text \<open>
  The part of the Linux semantics of the calls that the properties below speak about:
  which descriptor is the handle of the private directory, which names the private
  directory holds, and the state of every open socket. A call that failed changes
  nothing. A path of the form \<open>/proc/self/fd/<d>/<name>\<close> with \<open>d\<close> the directory
  handle denotes the entry \<open>name\<close> of the private directory.
\<close>

record sock =
  bound_to :: "string option"
  backlog :: "int option"
  accepted :: nat

record kernel =
  dir_handle :: "int option"
  entries :: "string set"
  socks :: "int \<Rightarrow> sock option"

fun strip_prefix :: "string \<Rightarrow> string \<Rightarrow> string option" where
  "strip_prefix [] s = Some s"
| "strip_prefix (p # ps) [] = None"
| "strip_prefix (p # ps) (c # cs) = (if p = c then strip_prefix ps cs else None)"

definition entry_name :: "kernel \<Rightarrow> string \<Rightarrow> string option" where
  "entry_name k path =
     (case dir_handle k of None \<Rightarrow> None | Some d \<Rightarrow> strip_prefix (proc_fd_path d []) path)"

definition new_sock :: sock where
  "new_sock = \<lparr>bound_to = None, backlog = None, accepted = 0\<rparr>"

fun effect :: "event \<Rightarrow> kernel \<Rightarrow> kernel" where
  "effect (Open_dir path flags ret) k = (if ret < 0 then k else k\<lparr>dir_handle := Some ret\<rparr>)"
| "effect (Socket d t p ret) k =
     (if ret < 0 then k else k\<lparr>socks := (socks k)(ret \<mapsto> new_sock)\<rparr>)"
| "effect (Bind fd addr ret) k =
     (if ret < 0 then k
      else case socks k fd of
             None \<Rightarrow> k
           | Some s \<Rightarrow>
               k\<lparr>socks := (socks k)(fd \<mapsto> s\<lparr>bound_to := Some (sun_path addr)\<rparr>),
                 entries := (case entry_name k (sun_path addr) of
                               None \<Rightarrow> entries k
                             | Some n \<Rightarrow> insert n (entries k))\<rparr>)"
| "effect (Listen fd n ret) k =
     (if ret < 0 then k
      else case socks k fd of
             None \<Rightarrow> k
           | Some s \<Rightarrow> k\<lparr>socks := (socks k)(fd \<mapsto> s\<lparr>backlog := Some n\<rparr>)\<rparr>)"
| "effect (Accept4 fd flags ret) k =
     (if ret < 0 then k
      else case socks k fd of
             None \<Rightarrow> k
           | Some s \<Rightarrow>
               k\<lparr>socks := (socks k)(fd \<mapsto> s\<lparr>accepted := Suc (accepted s)\<rparr>, ret \<mapsto> new_sock)\<rparr>)"
| "effect (Close fd ret) k =
     (if ret < 0 then k
      else k\<lparr>socks := (socks k)(fd := None),
             dir_handle := (if dir_handle k = Some fd then None else dir_handle k)\<rparr>)"
| "effect (Unlinkat dfd name flags ret) k =
     (if ret < 0 \<or> dir_handle k \<noteq> Some dfd then k
      else k\<lparr>entries := entries k - {name}\<rparr>)"
| "effect (Getenv v r) k = k"
| "effect (Asprintf s r) k = k"
| "effect (Mkdtemp s r) k = k"
| "effect (Snprintf n s w r) k = k"
| "effect (Dprintf fd s) k = k"
| "effect (Sendmsg fd m f r) k = k"
| "effect (Free s) k = k"
| "effect (Err st m) k = k"

text \<open>The state after a list of calls, and each call paired with the state it is made in.\<close>

fun after :: "event list \<Rightarrow> kernel \<Rightarrow> kernel" where
  "after [] k = k"
| "after (ev # evs) k = after evs (effect ev k)"

fun timeline :: "kernel \<Rightarrow> event list \<Rightarrow> (kernel \<times> event) list" where
  "timeline k [] = []"
| "timeline k (ev # evs) = (k, ev) # timeline (effect ev k) evs"

text \<open>
  The state the program starts in: no directory handle, no socket of its own, and
  (once \<open>mkdtemp\<close> has created it) an empty private directory.
\<close>

definition boot :: kernel where
  "boot = \<lparr>dir_handle = None, entries = {}, socks = (\<lambda>fd. None)\<rparr>"

text \<open>
  A socket is ready for a peer when its name is in the private directory and the
  descriptor is an open socket bound there, listening with backlog 10, with no
  connection accepted yet.
\<close>

definition ready :: "kernel \<Rightarrow> int \<Rightarrow> int \<Rightarrow> string \<Rightarrow> bool" where
  "ready k fd dirfd name \<longleftrightarrow>
     name \<in> entries k \<and>
     socks k fd = Some \<lparr>bound_to = Some (proc_fd_path dirfd name), backlog = Some 10, accepted = 0\<rparr>"

subsection \<open>Observations on a run\<close>

text \<open>The strings the program writes to a descriptor with \<open>dprintf\<close>, in order.\<close>

fun written :: "int \<Rightarrow> event \<Rightarrow> string list" where
  "written fd (Dprintf f s) = (if f = fd then [s] else [])"
| "written fd ev = []"

definition stdout_writes :: "event list \<Rightarrow> string list" where
  "stdout_writes t = concat (map (written 1) t)"

fun is_announce :: "event \<Rightarrow> bool" where
  "is_announce (Dprintf fd s) = (fd = 1)"
| "is_announce ev = False"

fun is_accept :: "event \<Rightarrow> bool" where
  "is_accept (Accept4 fd fl r) = True"
| "is_accept ev = False"

fun is_sendmsg :: "event \<Rightarrow> bool" where
  "is_sendmsg (Sendmsg fd m f r) = True"
| "is_sendmsg ev = False"

fun is_unlink :: "event \<Rightarrow> bool" where
  "is_unlink (Unlinkat d n f r) = True"
| "is_unlink ev = False"

text \<open>The paths handed to \<open>bind\<close>, and the flag sets handed to \<open>open\<close>.\<close>

fun bind_path :: "event \<Rightarrow> string list" where
  "bind_path (Bind fd addr r) = [sun_path addr]"
| "bind_path ev = []"

definition bind_paths :: "event list \<Rightarrow> string list" where
  "bind_paths t = concat (map bind_path t)"

fun open_mode :: "event \<Rightarrow> open_flag set list" where
  "open_mode (Open_dir p fl r) = [fl]"
| "open_mode ev = []"

definition open_modes :: "event list \<Rightarrow> open_flag set list" where
  "open_modes t = concat (map open_mode t)"

text \<open>
  A path is absolute when it starts with a slash, and a text has as many lines as it has
  newline characters. The reading of the announcement that is checked below: what is
  written to standard output is three strings, the first two of them absolute paths, the
  third the line \<open>done\<close>, and together they are three lines.
\<close>

definition absolute :: "string \<Rightarrow> bool" where
  "absolute p \<longleftrightarrow> take 1 p = ''/''"

definition newlines :: "string \<Rightarrow> nat" where
  "newlines s = length (filter (\<lambda>c. c = CHR ''\<newline>'') s)"

definition three_absolute_lines :: "string list \<Rightarrow> bool" where
  "three_absolute_lines ws \<longleftrightarrow>
     length ws = 3 \<and> absolute (ws ! 0) \<and> absolute (ws ! 1) \<and> ws ! 2 = ''done\<newline>'' \<and>
     newlines (concat ws) = 3"

text \<open>A socket-creation, bind or listen call that returned an error.\<close>

fun failed_binding :: "event \<Rightarrow> bool" where
  "failed_binding (Socket d ty p r) = (r < 0)"
| "failed_binding (Bind fd addr r) = (r < 0)"
| "failed_binding (Listen fd n r) = (r < 0)"
| "failed_binding ev = False"

definition binding_step_failed :: "event list \<Rightarrow> bool" where
  "binding_step_failed t = list_ex failed_binding t"

text \<open>The calls of \<open>make_private_dir\<close>, and of \<open>err\<close>: none touches the kernel state above.\<close>

fun provisioning :: "event \<Rightarrow> bool" where
  "provisioning (Getenv v r) = True"
| "provisioning (Asprintf s r) = True"
| "provisioning (Mkdtemp s r) = True"
| "provisioning (Err st m) = True"
| "provisioning ev = False"

text \<open>The calls of \<open>listen_unix_socket\<close>, and of \<open>err\<close>.\<close>

fun binding :: "event \<Rightarrow> bool" where
  "binding (Snprintf n s w r) = True"
| "binding (Socket d ty p r) = True"
| "binding (Bind fd addr r) = True"
| "binding (Listen fd n r) = True"
| "binding (Err st m) = True"
| "binding ev = False"

text \<open>
  The reading of the directory handle's mode that is checked below: every \<open>open\<close> of
  the run asks both that a symbolic link is not followed (\<open>O_NOFOLLOW\<close>) and that the
  descriptor is closed on \<open>exec\<close> (\<open>O_CLOEXEC\<close>).
\<close>

definition opened_nofollow_cloexec :: "event list \<Rightarrow> bool" where
  "opened_nofollow_cloexec t =
     list_all (\<lambda>fl. O_NOFOLLOW \<in> fl \<and> O_CLOEXEC \<in> fl) (open_modes t)"

subsection \<open>The path on which nothing fails\<close>

text \<open>The base directory chosen at lines 14 to 16.\<close>

definition base_dir :: "env \<Rightarrow> string" where
  "base_dir e = (case env_XDG_RUNTIME_DIR e of Some d \<Rightarrow> d
                 | None \<Rightarrow> (case env_TMPDIR e of Some d \<Rightarrow> d | None \<Rightarrow> ''/tmp''))"

definition listen_ok :: "listen_env \<Rightarrow> bool" where
  "listen_ok le \<longleftrightarrow>
     \<not> snprintf_fails le \<and> 0 \<le> socket_ret le \<and> 0 \<le> bind_ret le \<and> 0 \<le> listen_ret le"

definition listen_calls :: "nat \<Rightarrow> listen_env \<Rightarrow> int \<Rightarrow> string \<Rightarrow> event list" where
  "listen_calls sz le dirfd name =
     [Snprintf sz (proc_fd_path dirfd name) (snprintf_stored sz (proc_fd_path dirfd name))
        (int (length (proc_fd_path dirfd name))),
      Socket AF_UNIX SOCK_STREAM 0 (socket_ret le),
      Bind (socket_ret le)
        \<lparr>sun_family = AF_UNIX, sun_path = snprintf_stored sz (proc_fd_path dirfd name)\<rparr>
        (bind_ret le),
      Listen (socket_ret le) 10 (listen_ret le)]"

definition rest_ok :: "env \<Rightarrow> bool" where
  "rest_ok e \<longleftrightarrow>
     0 \<le> open_ret e \<and> listen_ok (data_calls e) \<and> listen_ok (pass_calls e) \<and>
     0 \<le> close_stdout_ret e \<and> 0 \<le> accept4_ret e \<and> 0 \<le> close_passsock_ret e \<and>
     0 \<le> unlinkat_ret e \<and> 0 \<le> sendmsg_ret e \<and> 0 \<le> close_connsock_ret e \<and>
     0 \<le> close_datasock_ret e \<and> 0 \<le> close_dirfd_ret e"

text \<open>The calls of \<open>main\<close> from line 50 on when none of them fails.\<close>

definition straight_line :: "env \<Rightarrow> string \<Rightarrow> event list" where
  "straight_line e dir =
     [Open_dir dir {O_DIRECTORY, O_CLOEXEC} (open_ret e)] @
     listen_calls (sizeof_sun_path e) (data_calls e) (open_ret e) ''data'' @
     [Dprintf 1 (dir @ ''/data\<newline>'')] @
     listen_calls (sizeof_sun_path e) (pass_calls e) (open_ret e) ''pass'' @
     [Dprintf 1 (dir @ ''/pass\<newline>''), Dprintf 1 ''done\<newline>'',
      Close 1 (close_stdout_ret e),
      Accept4 (socket_ret (pass_calls e)) {SOCK_CLOEXEC} (accept4_ret e),
      Close (socket_ret (pass_calls e)) (close_passsock_ret e),
      Unlinkat (open_ret e) ''pass'' 0 (unlinkat_ret e),
      Sendmsg (accept4_ret e) (handoff_msg (socket_ret (data_calls e))) 0 (sendmsg_ret e),
      Close (accept4_ret e) (close_connsock_ret e),
      Free dir,
      Close (socket_ret (data_calls e)) (close_datasock_ret e),
      Close (open_ret e) (close_dirfd_ret e)]"

text \<open>
  Lines 57 to 91 of \<open>main\<close> on their own, given the values computed before them: the
  part of \<open>main\<close> that runs once both sockets are listening and the three lines have
  been written.
\<close>

definition main_from_line_57 :: "env \<Rightarrow> string \<Rightarrow> int \<Rightarrow> int \<Rightarrow> int \<Rightarrow> int run" where
  "main_from_line_57 e dir dirfd datasock passsock =
    (let t3 = [Close 1 (close_stdout_ret e)]
     in if close_stdout_ret e < 0 then (t3 @ [Err 1 ''close(1)''], Exit 1)
     else
     let connsock = accept4_ret e;
         t4 = t3 @ [Accept4 passsock {SOCK_CLOEXEC} connsock]
     in if connsock < 0 then (t4 @ [Err 1 ''accept4(passsock)''], Exit 1)
     else
     let t5 = t4 @ [Close passsock (close_passsock_ret e)]
     in if close_passsock_ret e < 0 then (t5 @ [Err 1 ''close(passsock)''], Exit 1)
     else
     let t6 = t5 @ [Unlinkat dirfd ''pass'' 0 (unlinkat_ret e)]
     in if unlinkat_ret e < 0 then (t6 @ [Err 1 ''unlinkat''], Exit 1)
     else
     let t7 = t6 @ [Sendmsg connsock (handoff_msg datasock) 0 (sendmsg_ret e)]
     in if sendmsg_ret e < 0 then (t7 @ [Err 1 (sendmsg_diag connsock datasock)], Exit 1)
     else
     let t8 = t7 @ [Close connsock (close_connsock_ret e)]
     in if close_connsock_ret e < 0 then (t8 @ [Err 1 ''close(connsock)''], Exit 1)
     else
     let t9 = t8 @ [Free dir, Close datasock (close_datasock_ret e)]
     in if close_datasock_ret e < 0 then (t9 @ [Err 1 ''close(connsock)''], Exit 1)
     else
     let t10 = t9 @ [Close dirfd (close_dirfd_ret e)]
     in if close_dirfd_ret e < 0 then (t10 @ [Err 1 ''close(connsock)''], Exit 1)
     else (t10, Returns 0))"

text \<open>
  What the kernel guarantees about the descriptors it hands out: a new descriptor
  differs from every descriptor open at that moment. Standard output (1) is open until
  line 57, the directory handle and the two listening sockets until after \<open>accept4\<close>.
\<close>

definition fresh_descriptors :: "env \<Rightarrow> bool" where
  "fresh_descriptors e \<longleftrightarrow>
     open_ret e \<noteq> 1 \<and>
     socket_ret (data_calls e) \<notin> {1, open_ret e} \<and>
     socket_ret (pass_calls e) \<notin> {1, open_ret e, socket_ret (data_calls e)} \<and>
     accept4_ret e \<notin> {open_ret e, socket_ret (data_calls e), socket_ret (pass_calls e)}"

text \<open>
  The reading of readiness before announcement that is checked below: every write to
  standard output is made in a state in which both the "data" and the "pass" socket are
  ready.
\<close>

definition announced_after_both_ready :: "env \<Rightarrow> bool" where
  "announced_after_both_ready e =
     list_all (\<lambda>(k, ev). is_announce ev \<longrightarrow>
                 ready k (socket_ret (data_calls e)) (open_ret e) ''data'' \<and>
                 ready k (socket_ret (pass_calls e)) (open_ret e) ''pass'')
       (timeline boot (fst (main e)))"

subsection \<open>Concrete runs\<close>

definition ok_listen :: "int \<Rightarrow> listen_env" where
  "ok_listen fd = \<lparr>snprintf_fails = False, socket_ret = fd, bind_ret = 0, listen_ret = 0\<rparr>"

text \<open>
  A run on Linux in which every call succeeds: the directory handle is 3, the sockets
  are 4 and 5, and the accepted connection takes descriptor 1, free since line 57.
\<close>

definition ok_env :: env where
  "ok_env =
     \<lparr>sizeof_sun_path = 108, env_XDG_RUNTIME_DIR = Some ''/run/user/1000'', env_TMPDIR = None,
      asprintf_fails = False, mkdtemp_pick = Some ''a1B2c3'', open_ret = 3,
      data_calls = ok_listen 4, pass_calls = ok_listen 5, close_stdout_ret = 0,
      accept4_ret = 1, close_passsock_ret = 0, unlinkat_ret = 0, sendmsg_ret = 1,
      close_connsock_ret = 0, close_datasock_ret = 0, close_dirfd_ret = 0\<rparr>"

definition ok_dir :: string where
  "ok_dir = ''/run/user/1000/a1B2c3''"

definition ok_pre :: "event list" where
  "ok_pre =
     [Getenv ''XDG_RUNTIME_DIR'' (Some ''/run/user/1000''),
      Asprintf ''/run/user/1000/XXXXXX'' 21,
      Mkdtemp ''/run/user/1000/XXXXXX'' (Some ok_dir)]"

text \<open>The same run, except that \<open>bind\<close> fails for the "pass" socket.\<close>

definition pass_bind_fails_env :: env where
  "pass_bind_fails_env = ok_env\<lparr>pass_calls := (ok_listen 5)\<lparr>bind_ret := - 1\<rparr>\<rparr>"

text \<open>The same run, except that \<open>socket\<close> fails for the "data" socket.\<close>

definition data_socket_fails_env :: env where
  "data_socket_fails_env = ok_env\<lparr>data_calls := (ok_listen 4)\<lparr>socket_ret := - 1\<rparr>\<rparr>"

text \<open>The same run, except that the \<open>close\<close> of the "data" socket at line 89 fails.\<close>

definition datasock_close_fails_env :: env where
  "datasock_close_fails_env = ok_env\<lparr>close_datasock_ret := - 1\<rparr>"

text \<open>The same run, except that the \<open>close\<close> of the directory handle at line 90 fails.\<close>

definition dirfd_close_fails_env :: env where
  "dirfd_close_fails_env = ok_env\<lparr>close_dirfd_ret := - 1\<rparr>"

text \<open>The run in which every call succeeds, with a relative \<open>XDG_RUNTIME_DIR\<close>.\<close>

definition relative_base_env :: env where
  "relative_base_env = ok_env\<lparr>env_XDG_RUNTIME_DIR := Some ''rel''\<rparr>"

text \<open>The same run with \<open>XDG_RUNTIME_DIR\<close> unset and a newline inside \<open>TMPDIR\<close>.\<close>

definition newline_base_env :: env where
  "newline_base_env =
     ok_env\<lparr>env_XDG_RUNTIME_DIR := None, env_TMPDIR := Some ''/tmp/a\<newline>b''\<rparr>"

text \<open>A name of 200 characters, longer than \<open>sun_path\<close>.\<close>

definition long_name :: string where
  "long_name = replicate 200 (CHR ''a'')"

section \<open>Auxiliary facts\<close>

subsection \<open>Evaluation of the functions\<close>

lemma show_int_small:
  "show_int 1 = ''1''" "show_int 3 = ''3''" "show_int 4 = ''4''" "show_int 5 = ''5''"
  by (simp_all add: show_int_def show_nat.simps digit_char_def)

lemma proc_fd_path_3:
  "proc_fd_path 3 name = ''/proc/self/fd/3/'' @ name"
  by (simp add: proc_fd_path_def show_int_small)

lemma make_private_dir_ok_env: "make_private_dir ok_env = (ok_pre, Returns ok_dir)"
  by (simp add: make_private_dir_def ok_env_def ok_pre_def ok_dir_def Let_def)

lemma listen_unix_socket_ok:
  "listen_ok le \<Longrightarrow>
     listen_unix_socket sz le dirfd name = (listen_calls sz le dirfd name, Returns (socket_ret le))"
  by (simp add: listen_unix_socket_def listen_ok_def listen_calls_def Let_def)

lemma listen_unix_socket_Returns:
  "listen_unix_socket sz le dirfd name = (t, Returns fd) \<Longrightarrow>
     listen_ok le \<and> fd = socket_ret le \<and> t = listen_calls sz le dirfd name"
  by (auto simp: listen_unix_socket_def listen_ok_def listen_calls_def Let_def split: if_splits)

lemma listen_unix_socket_Exit:
  "listen_unix_socket sz le dirfd name = (t, Exit st) \<Longrightarrow> \<not> listen_ok le \<and> st = 1"
  by (auto simp: listen_unix_socket_def listen_ok_def Let_def split: if_splits)

lemma make_private_dir_events:
  "make_private_dir e = (t, r) \<Longrightarrow> ev \<in> set t \<Longrightarrow> provisioning ev"
  by (auto simp: make_private_dir_def Let_def split: if_splits option.splits)

lemma make_private_dir_Exit:
  "make_private_dir e = (t, Exit st) \<Longrightarrow> st = 1"
  by (auto simp: make_private_dir_def Let_def split: if_splits option.splits)

lemma make_private_dir_Returns:
  "make_private_dir e = (t, Returns d) \<Longrightarrow>
     (\<exists>sfx. mkdtemp_pick e = Some sfx \<and> d = base_dir e @ ''/'' @ sfx)"
  by (auto simp: make_private_dir_def base_dir_def Let_def split: if_splits option.splits)

lemma main_success:
  assumes "exit_status (main e) = 0"
  shows "\<exists>t0 dir. make_private_dir e = (t0, Returns dir) \<and> rest_ok e \<and>
           main e = (t0 @ straight_line e dir, Returns 0)"
  using assms
  by (auto simp: main_def Let_def rest_ok_def straight_line_def 
      split: prod.splits outcome.splits if_splits
      dest!: listen_unix_socket_Returns listen_unix_socket_Exit make_private_dir_Exit)

lemma main_ok:
  assumes "make_private_dir e = (t0, Returns dir)" "rest_ok e"
  shows "main e = (t0 @ straight_line e dir, Returns 0)"
  using assms
  by (simp add: main_def Let_def rest_ok_def straight_line_def listen_unix_socket_ok)

lemma rest_ok_ok_env: "rest_ok ok_env"
  by (simp add: rest_ok_def ok_env_def ok_listen_def listen_ok_def)

lemma main_ok_env: "main ok_env = (ok_pre @ straight_line ok_env ok_dir, Returns 0)"
  by (rule main_ok[OF make_private_dir_ok_env rest_ok_ok_env])

lemma exit_ok_env: "exit_status (main ok_env) = 0"
  by (simp add: main_ok_env)

lemma straight_line_ok_env:
  "straight_line ok_env ok_dir =
     [Open_dir ok_dir {O_DIRECTORY, O_CLOEXEC} 3,
      Snprintf 108 ''/proc/self/fd/3/data'' ''/proc/self/fd/3/data'' 20,
      Socket AF_UNIX SOCK_STREAM 0 4,
      Bind 4 \<lparr>sun_family = AF_UNIX, sun_path = ''/proc/self/fd/3/data''\<rparr> 0,
      Listen 4 10 0,
      Dprintf 1 (ok_dir @ ''/data\<newline>''),
      Snprintf 108 ''/proc/self/fd/3/pass'' ''/proc/self/fd/3/pass'' 20,
      Socket AF_UNIX SOCK_STREAM 0 5,
      Bind 5 \<lparr>sun_family = AF_UNIX, sun_path = ''/proc/self/fd/3/pass''\<rparr> 0,
      Listen 5 10 0,
      Dprintf 1 (ok_dir @ ''/pass\<newline>''),
      Dprintf 1 ''done\<newline>'',
      Close 1 0,
      Accept4 5 {SOCK_CLOEXEC} 1,
      Close 5 0,
      Unlinkat 3 ''pass'' 0 0,
      Sendmsg 1 (handoff_msg 4) 0 1,
      Close 1 0,
      Free ok_dir,
      Close 4 0,
      Close 3 0]"
  by (simp add: straight_line_def listen_calls_def ok_env_def ok_listen_def proc_fd_path_3 snprintf_stored_def)

subsection \<open>Calls that leave the kernel state alone\<close>

lemma provisioning_silent:
  assumes "provisioning ev"
  shows "written fd ev = []" "\<not> is_accept ev" "\<not> is_sendmsg ev" "\<not> is_unlink ev"
    "\<not> is_announce ev" "bind_path ev = []" "open_mode ev = []" "\<not> failed_binding ev"
    "effect ev k = k"
  using assms by (cases ev; simp)+

lemma provisioning_trace:
  assumes "\<forall>ev\<in>set t. provisioning ev"
  shows "stdout_writes t = []" "filter is_sendmsg t = []" "filter is_unlink t = []"
    "filter is_accept t = []"
    "bind_paths t = []" "open_modes t = []" "\<not> binding_step_failed t" "after t k = k"
  using assms
  by (induction t arbitrary: k)
     (simp_all add: stdout_writes_def bind_paths_def open_modes_def binding_step_failed_def
        provisioning_silent)

subsection \<open>Every run, and the concrete ones\<close>

lemma listen_unix_socket_events:
  "listen_unix_socket sz le dirfd name = (t, r) \<Longrightarrow> ev \<in> set t \<Longrightarrow> binding ev"
  by (auto simp: listen_unix_socket_def Let_def split: if_splits)

lemma main_opens:
  "Open_dir p fl r \<in> set (fst (main e)) \<Longrightarrow>
     snd (make_private_dir e) = Returns p \<and> r = open_ret e \<and> fl = {O_DIRECTORY, O_CLOEXEC}"
  by (auto simp: main_def Let_def
      split: prod.splits outcome.splits if_splits
      dest: make_private_dir_events listen_unix_socket_events)

lemma trace_ok_env: "fst (main ok_env) = ok_pre @ straight_line ok_env ok_dir"
  by (simp add: main_ok_env)

lemma open_modes_ok_env: "open_modes (fst (main ok_env)) = [{O_DIRECTORY, O_CLOEXEC}]"
  by (simp add: trace_ok_env straight_line_ok_env ok_pre_def open_modes_def)

lemma strip_prefix_append: "strip_prefix p (p @ s) = Some s"
  by (induction p) auto

lemma entry_name_proc:
  "dir_handle k = Some d \<Longrightarrow> entry_name k (proc_fd_path d name) = Some name"
  using strip_prefix_append[of "proc_fd_path d []" name]
  by (simp add: entry_name_def proc_fd_path_def)

lemma proc_fd_path_length: "14 < length (proc_fd_path d name)"
  by (simp add: proc_fd_path_def)

lemma snprintf_stored_eq:
  "snprintf_stored sz (proc_fd_path d name) = proc_fd_path d name
     \<longleftrightarrow> length (proc_fd_path d name) < sz"
  using proc_fd_path_length[of d name]
  by (cases sz) (auto simp: snprintf_stored_def take_all_iff)

lemma length_long_path: "length (proc_fd_path 3 long_name) = 216"
  by (simp add: proc_fd_path_3 long_name_def)

subsection \<open>The shape of every run\<close>

lemma listen_unix_socket_fail:
  "\<not> listen_ok le \<Longrightarrow> snd (listen_unix_socket sz le dirfd name) = Exit 1"
  by (auto simp: listen_unix_socket_def listen_ok_def Let_def)

lemma main_shape:
  "main e =
    (case make_private_dir e of
       (t0, Exit st) \<Rightarrow> (t0, Exit 1)
     | (t0, Returns dir) \<Rightarrow>
         if open_ret e < 0
         then (t0 @ [Open_dir dir {O_DIRECTORY, O_CLOEXEC} (open_ret e), Err 1 ''open''], Exit 1)
         else if \<not> listen_ok (data_calls e)
         then (t0 @ [Open_dir dir {O_DIRECTORY, O_CLOEXEC} (open_ret e)] @
                 fst (listen_unix_socket (sizeof_sun_path e) (data_calls e) (open_ret e) ''data''),
               Exit 1)
         else if \<not> listen_ok (pass_calls e)
         then (t0 @ [Open_dir dir {O_DIRECTORY, O_CLOEXEC} (open_ret e)] @
                 listen_calls (sizeof_sun_path e) (data_calls e) (open_ret e) ''data'' @
                 [Dprintf 1 (dir @ ''/data\<newline>'')] @
                 fst (listen_unix_socket (sizeof_sun_path e) (pass_calls e) (open_ret e) ''pass''),
               Exit 1)
         else (t0 @ [Open_dir dir {O_DIRECTORY, O_CLOEXEC} (open_ret e)] @
                 listen_calls (sizeof_sun_path e) (data_calls e) (open_ret e) ''data'' @
                 [Dprintf 1 (dir @ ''/data\<newline>'')] @
                 listen_calls (sizeof_sun_path e) (pass_calls e) (open_ret e) ''pass'' @
                 [Dprintf 1 (dir @ ''/pass\<newline>''), Dprintf 1 ''done\<newline>''] @
                 fst (main_from_line_57 e dir (open_ret e) (socket_ret (data_calls e))
                        (socket_ret (pass_calls e))),
               snd (main_from_line_57 e dir (open_ret e) (socket_ret (data_calls e))
                        (socket_ret (pass_calls e)))))"
proof (cases "make_private_dir e")
  case (Pair t0 r0)
  show ?thesis
  proof (cases r0)
    case (Exit st)
    then show ?thesis using Pair make_private_dir_Exit[of e t0 st] by (simp add: main_def)
  next
    case (Returns dir)
    note mk = Pair[unfolded Returns]
    show ?thesis
    proof (cases "open_ret e < 0")
      case True
      then show ?thesis by (simp add: main_def mk Let_def)
    next
      case op: False
      show ?thesis
      proof (cases "listen_ok (data_calls e)")
        case False
        obtain ta where ta: "listen_unix_socket (sizeof_sun_path e) (data_calls e) (open_ret e) ''data'' = (ta, Exit 1)"
          using listen_unix_socket_fail[OF False, of "sizeof_sun_path e" "open_ret e" "''data''"]
          by (cases "listen_unix_socket (sizeof_sun_path e) (data_calls e) (open_ret e) ''data''") auto
        show ?thesis using op False by (simp add: main_def mk Let_def ta)
      next
        case da: True
        note la = listen_unix_socket_ok[OF da, of "sizeof_sun_path e" "open_ret e" "''data''"]
        show ?thesis
        proof (cases "listen_ok (pass_calls e)")
          case False
          obtain tb where tb: "listen_unix_socket (sizeof_sun_path e) (pass_calls e) (open_ret e) ''pass'' = (tb, Exit 1)"
            using listen_unix_socket_fail[OF False, of "sizeof_sun_path e" "open_ret e" "''pass''"]
            by (cases "listen_unix_socket (sizeof_sun_path e) (pass_calls e) (open_ret e) ''pass''") auto
          show ?thesis using op da False by (simp add: main_def mk Let_def la tb)
        next
          case pa: True
          note lb = listen_unix_socket_ok[OF pa, of "sizeof_sun_path e" "open_ret e" "''pass''"]
          show ?thesis using op da pa
            by (simp add: main_def mk Let_def la lb main_from_line_57_def)
        qed
      qed
    qed
  qed
qed

lemma stdout_writes_simps:
  "stdout_writes [] = []"
  "stdout_writes (ev # t) = written 1 ev @ stdout_writes t"
  "stdout_writes (a @ b) = stdout_writes a @ stdout_writes b"
  by (simp_all add: stdout_writes_def)

lemma binding_step_failed_simps:
  "binding_step_failed [] = False"
  "binding_step_failed (ev # t) = (failed_binding ev \<or> binding_step_failed t)"
  "binding_step_failed (a @ b) = (binding_step_failed a \<or> binding_step_failed b)"
  by (simp_all add: binding_step_failed_def)

lemma binding_silent:
  assumes "binding ev"
  shows "written fd ev = []" "\<not> is_accept ev" "\<not> is_sendmsg ev" "\<not> is_unlink ev"
    "\<not> is_announce ev" "open_mode ev = []"
  using assms by (cases ev; simp)+

lemma binding_trace:
  assumes "\<forall>ev\<in>set t. binding ev"
  shows "stdout_writes t = []" "filter is_unlink t = []" "filter is_accept t = []"
  using assms by (induction t) (simp_all add: stdout_writes_simps binding_silent)

lemma make_private_dir_quiet:
  assumes "make_private_dir e = (t, r)"
  shows "stdout_writes t = []" "\<not> binding_step_failed t" "filter is_unlink t = []"
    "filter is_accept t = []" "after t k = k"
proof -
  have p: "\<forall>ev\<in>set t. provisioning ev" using make_private_dir_events[OF assms] by blast
  show "stdout_writes t = []" "\<not> binding_step_failed t" "filter is_unlink t = []"
    "filter is_accept t = []" "after t k = k"
    using provisioning_trace[OF p] by simp_all
qed

lemma listen_unix_socket_quiet:
  "stdout_writes (fst (listen_unix_socket sz le dirfd name)) = []"
  "filter is_unlink (fst (listen_unix_socket sz le dirfd name)) = []"
  "filter is_accept (fst (listen_unix_socket sz le dirfd name)) = []"
proof -
  have b: "\<forall>ev\<in>set (fst (listen_unix_socket sz le dirfd name)). binding ev"
    using listen_unix_socket_events[of sz le dirfd name] by (metis prod.collapse)
  show "stdout_writes (fst (listen_unix_socket sz le dirfd name)) = []"
  "filter is_unlink (fst (listen_unix_socket sz le dirfd name)) = []"
  "filter is_accept (fst (listen_unix_socket sz le dirfd name)) = []"
    using binding_trace[OF b] by simp_all
qed

lemma listen_calls_quiet:
  "stdout_writes (listen_calls sz le dirfd name) = []"
  "filter is_unlink (listen_calls sz le dirfd name) = []"
  "filter is_accept (listen_calls sz le dirfd name) = []"
  by (simp_all add: listen_calls_def stdout_writes_simps)

lemma listen_calls_not_failed:
  "listen_ok le \<Longrightarrow> \<not> binding_step_failed (listen_calls sz le dirfd name)"
  by (simp add: listen_calls_def listen_ok_def binding_step_failed_def)

lemma main_from_line_57_quiet:
  "stdout_writes (fst (main_from_line_57 e dir d a b)) = []"
  "\<not> binding_step_failed (fst (main_from_line_57 e dir d a b))"
  by (simp_all add: main_from_line_57_def Let_def stdout_writes_simps binding_step_failed_simps)

lemma main_pass_bind_fails_env:
  "fst (main pass_bind_fails_env) =
     ok_pre @
     [Open_dir ok_dir {O_DIRECTORY, O_CLOEXEC} 3,
      Snprintf 108 ''/proc/self/fd/3/data'' ''/proc/self/fd/3/data'' 20,
      Socket AF_UNIX SOCK_STREAM 0 4,
      Bind 4 \<lparr>sun_family = AF_UNIX, sun_path = ''/proc/self/fd/3/data''\<rparr> 0,
      Listen 4 10 0,
      Dprintf 1 (ok_dir @ ''/data\<newline>''),
      Snprintf 108 ''/proc/self/fd/3/pass'' ''/proc/self/fd/3/pass'' 20,
      Socket AF_UNIX SOCK_STREAM 0 5,
      Bind 5 \<lparr>sun_family = AF_UNIX, sun_path = ''/proc/self/fd/3/pass''\<rparr> (- 1),
      Err 1 ''bind'']"
  by (simp add: main_def make_private_dir_def listen_unix_socket_def pass_bind_fails_env_def
      ok_env_def ok_listen_def ok_dir_def ok_pre_def Let_def proc_fd_path_3 snprintf_stored_def)

lemma main_data_socket_fails_env:
  "main data_socket_fails_env =
     (ok_pre @
      [Open_dir ok_dir {O_DIRECTORY, O_CLOEXEC} 3,
       Snprintf 108 ''/proc/self/fd/3/data'' ''/proc/self/fd/3/data'' 20,
       Socket AF_UNIX SOCK_STREAM 0 (- 1),
       Err 1 ''socket''], Exit 1)"
  by (simp add: main_def make_private_dir_def listen_unix_socket_def data_socket_fails_env_def
      ok_env_def ok_listen_def ok_dir_def ok_pre_def Let_def proc_fd_path_3 snprintf_stored_def)

subsection \<open>The kernel state along the run on which nothing fails\<close>

lemma show_nat_length: "n < 10 ^ k \<Longrightarrow> 0 < k \<Longrightarrow> length (show_nat n) \<le> k"
proof (induction n arbitrary: k rule: show_nat.induct)
  case (1 n)
  show ?case
  proof (cases "n < 10")
    case True
    then show ?thesis using 1(3) by (simp add: show_nat.simps)
  next
    case False
    then obtain j where k: "k = Suc j" and j: "0 < j"
      using 1(2,3) by (cases k; cases "k - 1") auto
    have "n div 10 < 10 ^ j" using 1(2) k by (simp add: less_mult_imp_div_less mult.commute)
    then have "length (show_nat (n div 10)) \<le> j" using 1(1)[OF False _ j] by simp
    then show ?thesis using False k by (subst show_nat.simps) simp
  qed
qed

lemma show_int_length: "0 \<le> i \<Longrightarrow> i < 2 ^ 31 \<Longrightarrow> length (show_int i) \<le> 10"
proof -
  assume a: "0 \<le> i" "i < 2 ^ 31"
  have "nat i < 10 ^ 10" using a by simp
  then have "length (show_nat (nat i)) \<le> 10" by (rule show_nat_length) simp
  then show ?thesis using a by (simp add: show_int_def)
qed

lemma proc_fd_path_fits:
  "0 \<le> d \<Longrightarrow> d < 2 ^ 31 \<Longrightarrow> length name \<le> 4 \<Longrightarrow> 30 \<le> sz \<Longrightarrow>
     snprintf_stored sz (proc_fd_path d name) = proc_fd_path d name"
  using show_int_length[of d] by (simp add: snprintf_stored_def proc_fd_path_def)

lemma after_append: "after (a @ b) k = after b (after a k)"
  by (induction a arbitrary: k) auto

lemma timeline_append: "timeline k (a @ b) = timeline k a @ timeline (after a k) b"
  by (induction a arbitrary: k) auto

lemma timeline_provisioning:
  "\<forall>ev\<in>set t. provisioning ev \<Longrightarrow> (k', ev') \<in> set (timeline k t) \<Longrightarrow> provisioning ev'"
  by (induction t arbitrary: k) (auto simp: provisioning_silent)

lemma straight_line_facts:
  assumes ok: "rest_ok e" and fresh: "fresh_descriptors e"
    and int: "open_ret e < 2 ^ 31" and sz: "30 \<le> sizeof_sun_path e"
  shows "snprintf_stored (sizeof_sun_path e) (proc_fd_path (open_ret e) ''data'')
           = proc_fd_path (open_ret e) ''data''"
    "snprintf_stored (sizeof_sun_path e) (proc_fd_path (open_ret e) ''pass'')
           = proc_fd_path (open_ret e) ''pass''"
    "\<not> socket_ret (data_calls e) < 0" "\<not> socket_ret (pass_calls e) < 0"
    "\<not> bind_ret (data_calls e) < 0" "\<not> bind_ret (pass_calls e) < 0"
    "\<not> listen_ret (data_calls e) < 0" "\<not> listen_ret (pass_calls e) < 0"
    "\<not> open_ret e < 0" "\<not> close_stdout_ret e < 0" "\<not> accept4_ret e < 0"
    "\<not> close_passsock_ret e < 0" "\<not> unlinkat_ret e < 0" "\<not> sendmsg_ret e < 0"
    "\<not> close_connsock_ret e < 0" "\<not> close_datasock_ret e < 0" "\<not> close_dirfd_ret e < 0"
    "socket_ret (data_calls e) \<noteq> socket_ret (pass_calls e)"
    "socket_ret (pass_calls e) \<noteq> socket_ret (data_calls e)"
    "socket_ret (data_calls e) \<noteq> 1" "socket_ret (pass_calls e) \<noteq> 1" "open_ret e \<noteq> 1"
    "open_ret e \<noteq> socket_ret (pass_calls e)" "socket_ret (pass_calls e) \<noteq> open_ret e"
    "open_ret e \<noteq> socket_ret (data_calls e)" "socket_ret (data_calls e) \<noteq> open_ret e"
    "accept4_ret e \<noteq> open_ret e" "open_ret e \<noteq> accept4_ret e"
    "accept4_ret e \<noteq> socket_ret (data_calls e)" "accept4_ret e \<noteq> socket_ret (pass_calls e)"
proof -
  have d: "0 \<le> open_ret e" using ok by (simp add: rest_ok_def)
  show "snprintf_stored (sizeof_sun_path e) (proc_fd_path (open_ret e) ''data'')
           = proc_fd_path (open_ret e) ''data''"
    "snprintf_stored (sizeof_sun_path e) (proc_fd_path (open_ret e) ''pass'')
           = proc_fd_path (open_ret e) ''pass''"
    using d int sz by (simp_all add: proc_fd_path_fits)
  show "\<not> socket_ret (data_calls e) < 0" "\<not> socket_ret (pass_calls e) < 0"
    "\<not> bind_ret (data_calls e) < 0" "\<not> bind_ret (pass_calls e) < 0"
    "\<not> listen_ret (data_calls e) < 0" "\<not> listen_ret (pass_calls e) < 0"
    "\<not> open_ret e < 0" "\<not> close_stdout_ret e < 0" "\<not> accept4_ret e < 0"
    "\<not> close_passsock_ret e < 0" "\<not> unlinkat_ret e < 0" "\<not> sendmsg_ret e < 0"
    "\<not> close_connsock_ret e < 0" "\<not> close_datasock_ret e < 0" "\<not> close_dirfd_ret e < 0"
    using ok by (simp_all add: rest_ok_def listen_ok_def)
  show "socket_ret (data_calls e) \<noteq> socket_ret (pass_calls e)"
    "socket_ret (pass_calls e) \<noteq> socket_ret (data_calls e)"
    "socket_ret (data_calls e) \<noteq> 1" "socket_ret (pass_calls e) \<noteq> 1" "open_ret e \<noteq> 1"
    "open_ret e \<noteq> socket_ret (pass_calls e)" "socket_ret (pass_calls e) \<noteq> open_ret e"
    "open_ret e \<noteq> socket_ret (data_calls e)" "socket_ret (data_calls e) \<noteq> open_ret e"
    "accept4_ret e \<noteq> open_ret e" "open_ret e \<noteq> accept4_ret e"
    "accept4_ret e \<noteq> socket_ret (data_calls e)" "accept4_ret e \<noteq> socket_ret (pass_calls e)"
    using fresh by (auto simp: fresh_descriptors_def)
qed

lemma ready_all:
  assumes ok: "rest_ok e" and fresh: "fresh_descriptors e"
    and int: "open_ret e < 2 ^ 31" and sz: "30 \<le> sizeof_sun_path e"
  shows "list_all (\<lambda>(k, ev).
           (is_announce ev \<longrightarrow>
              ready k (socket_ret (data_calls e)) (open_ret e) ''data'' \<and>
              (ev \<noteq> Dprintf 1 (dir @ ''/data\<newline>'') \<longrightarrow>
                 ready k (socket_ret (pass_calls e)) (open_ret e) ''pass'')) \<and>
           (is_accept ev \<longrightarrow> ready k (socket_ret (pass_calls e)) (open_ret e) ''pass''))
        (timeline boot (straight_line e dir))"
  by (simp add: straight_line_def listen_calls_def straight_line_facts[OF assms]
        boot_def new_sock_def ready_def entry_name_proc)

lemma entries_after_straight_line:
  assumes ok: "rest_ok e" and fresh: "fresh_descriptors e"
    and int: "open_ret e < 2 ^ 31" and sz: "30 \<le> sizeof_sun_path e"
  shows "entries (after (straight_line e dir) boot) = {''data''}"
  by (simp add: straight_line_def listen_calls_def straight_line_facts[OF assms]
        boot_def new_sock_def entry_name_proc)

lemma fresh_ok_env: "fresh_descriptors ok_env"
  by (simp add: fresh_descriptors_def ok_env_def ok_listen_def)

lemma main_from_line_57_unlink:
  "filter is_unlink (fst (main_from_line_57 e dir d a b)) = [] \<or>
   (0 \<le> accept4_ret e \<and> 0 \<le> close_passsock_ret e \<and>
    filter is_unlink (fst (main_from_line_57 e dir d a b)) = [Unlinkat d ''pass'' 0 (unlinkat_ret e)] \<and>
    (\<exists>post. fst (main_from_line_57 e dir d a b) =
       [Close 1 (close_stdout_ret e), Accept4 b {SOCK_CLOEXEC} (accept4_ret e),
        Close b (close_passsock_ret e), Unlinkat d ''pass'' 0 (unlinkat_ret e)] @ post))"
  by (simp add: main_from_line_57_def Let_def)

lemma timeline_nth:
  "n < length t \<Longrightarrow> (after (take n t) k, t ! n) \<in> set (timeline k t)"
proof (induction t arbitrary: n k)
  case Nil
  then show ?case by simp
next
  case (Cons ev evs)
  show ?case
  proof (cases n)
    case 0
    then show ?thesis by simp
  next
    case (Suc m)
    then have "m < length evs" using Cons.prems by simp
    from Cons.IH[OF this, of "effect ev k"] show ?thesis using Suc by simp
  qed
qed

lemma done_ok_env:
  "14 < length (fst (main ok_env))" "fst (main ok_env) ! 14 = Dprintf 1 ''done\<newline>''"
  by (simp_all add: trace_ok_env straight_line_ok_env ok_pre_def)

subsection \<open>Paths and lines of the announcement\<close>

lemma main_relative_base_env:
  "exit_status (main relative_base_env) = 0"
  "stdout_writes (fst (main relative_base_env)) =
     [''rel/a1B2c3/data\<newline>'', ''rel/a1B2c3/pass\<newline>'', ''done\<newline>'']"
proof -
  have mk: "make_private_dir relative_base_env =
      ([Getenv ''XDG_RUNTIME_DIR'' (Some ''rel''), Asprintf ''rel/XXXXXX'' 10,
        Mkdtemp ''rel/XXXXXX'' (Some ''rel/a1B2c3'')], Returns ''rel/a1B2c3'')"
    by (simp add: make_private_dir_def relative_base_env_def ok_env_def Let_def)
  have ok: "rest_ok relative_base_env"
    by (simp add: rest_ok_def relative_base_env_def ok_env_def ok_listen_def listen_ok_def)
  note m = main_ok[OF mk ok]
  show "exit_status (main relative_base_env) = 0" by (simp add: m)
  show "stdout_writes (fst (main relative_base_env)) =
     [''rel/a1B2c3/data\<newline>'', ''rel/a1B2c3/pass\<newline>'', ''done\<newline>'']"
    by (simp add: m stdout_writes_simps straight_line_def listen_calls_quiet)
qed

lemma main_newline_base_env:
  "exit_status (main newline_base_env) = 0"
  "stdout_writes (fst (main newline_base_env)) =
     [''/tmp/a\<newline>b/a1B2c3/data\<newline>'', ''/tmp/a\<newline>b/a1B2c3/pass\<newline>'', ''done\<newline>'']"
proof -
  have mk: "make_private_dir newline_base_env =
      ([Getenv ''XDG_RUNTIME_DIR'' None, Getenv ''TMPDIR'' (Some ''/tmp/a\<newline>b''),
        Asprintf ''/tmp/a\<newline>b/XXXXXX'' 15,
        Mkdtemp ''/tmp/a\<newline>b/XXXXXX'' (Some ''/tmp/a\<newline>b/a1B2c3'')],
       Returns ''/tmp/a\<newline>b/a1B2c3'')"
    by (simp add: make_private_dir_def newline_base_env_def ok_env_def Let_def)
  have ok: "rest_ok newline_base_env"
    by (simp add: rest_ok_def newline_base_env_def ok_env_def ok_listen_def listen_ok_def)
  note m = main_ok[OF mk ok]
  show "exit_status (main newline_base_env) = 0" by (simp add: m)
  show "stdout_writes (fst (main newline_base_env)) =
     [''/tmp/a\<newline>b/a1B2c3/data\<newline>'', ''/tmp/a\<newline>b/a1B2c3/pass\<newline>'', ''done\<newline>'']"
    by (simp add: m stdout_writes_simps straight_line_def listen_calls_quiet)
qed

lemma newlines_simps:
  "newlines [] = 0"
  "newlines (a @ b) = newlines a + newlines b"
  "newlines (c # s) = (if c = CHR ''\<newline>'' then 1 else 0) + newlines s"
  by (simp_all add: newlines_def)

lemma absolute_private_dir:
  "absolute ((b @ ''/'' @ sfx) @ rest) \<longleftrightarrow> b = [] \<or> absolute b"
  by (cases b) (simp_all add: absolute_def)

section \<open>Properties of the handoff\<close>

subsection \<open>Readiness before announcement\<close>

text \<open>
  Claim C1 as stated fails: in the run where every call succeeds, the line with the
  "data" path is written when the "pass" socket does not exist yet.
\<close>

theorem data_line_written_before_pass_socket:
  "exit_status (main ok_env) = 0 \<and> \<not> announced_after_both_ready ok_env"
proof -
  have r: "socket_ret (data_calls ok_env) = 4" "socket_ret (pass_calls ok_env) = 5"
    "open_ret ok_env = 3"
    by (simp_all add: ok_env_def ok_listen_def)
  have a: "after ok_pre boot = boot" by (simp add: ok_pre_def)
  have "\<not> list_all (\<lambda>(k, ev). is_announce ev \<longrightarrow> ready k 4 3 ''data'' \<and> ready k 5 3 ''pass'')
          (timeline boot (ok_pre @ straight_line ok_env ok_dir))"
    unfolding timeline_append a straight_line_ok_env list_all_append
    by (simp add: boot_def ready_def new_sock_def)
  then show ?thesis
    using exit_ok_env by (simp add: announced_after_both_ready_def r trace_ok_env)
qed

text \<open>
  Claim C1, as amended. In every successful run (the kernel handing out fresh
  descriptors, \<open>int\<close> of 32 bits, \<open>sun_path\<close> of at least 30 bytes) each write to
  standard output is made in a state in which the "data" socket is ready, and each write
  other than the line with the "data" path in a state in which the "pass" socket is ready
  as well. The "pass" socket is still ready, with no connection accepted, when
  \<open>accept4\<close> is called, so a peer that connects to the "pass" path after it has read
  \<open>done\<close> finds the listener.
\<close>

theorem announcement_readiness:
  assumes "exit_status (main e) = 0" and "fresh_descriptors e"
    and "open_ret e < 2 ^ 31" and "30 \<le> sizeof_sun_path e"
  shows "\<exists>dir. snd (make_private_dir e) = Returns dir \<and>
     (\<forall>(k, ev)\<in>set (timeline boot (fst (main e))).
        (is_announce ev \<longrightarrow>
           ready k (socket_ret (data_calls e)) (open_ret e) ''data'' \<and>
           (ev \<noteq> Dprintf 1 (dir @ ''/data\<newline>'') \<longrightarrow>
              ready k (socket_ret (pass_calls e)) (open_ret e) ''pass'')) \<and>
        (is_accept ev \<longrightarrow> ready k (socket_ret (pass_calls e)) (open_ret e) ''pass''))"
proof -
  from main_success[OF assms(1)] obtain t0 dir where
    mk: "make_private_dir e = (t0, Returns dir)" and ok: "rest_ok e" and
    m: "main e = (t0 @ straight_line e dir, Returns 0)" by blast
  have prov: "\<forall>ev\<in>set t0. provisioning ev" using make_private_dir_events[OF mk] by blast
  have tl: "timeline boot (fst (main e)) = timeline boot t0 @ timeline boot (straight_line e dir)"
    by (simp add: m timeline_append make_private_dir_quiet(5)[OF mk])
  let ?P = "\<lambda>(k, ev).
        (is_announce ev \<longrightarrow>
           ready k (socket_ret (data_calls e)) (open_ret e) ''data'' \<and>
           (ev \<noteq> Dprintf 1 (dir @ ''/data\<newline>'') \<longrightarrow>
              ready k (socket_ret (pass_calls e)) (open_ret e) ''pass'')) \<and>
        (is_accept ev \<longrightarrow> ready k (socket_ret (pass_calls e)) (open_ret e) ''pass'')"
  have a: "\<forall>x\<in>set (timeline boot t0). ?P x"
  proof
    fix x assume x: "x \<in> set (timeline boot t0)"
    obtain k ev where kev: "x = (k, ev)" by (cases x)
    have "provisioning ev" using timeline_provisioning[OF prov] x kev by blast
    then show "?P x" unfolding kev by (simp add: provisioning_silent)
  qed
  have b: "\<forall>x\<in>set (timeline boot (straight_line e dir)). ?P x"
    using ready_all[OF ok assms(2,3,4), of dir] by (simp add: list_all_iff)
  have "\<forall>x\<in>set (timeline boot (fst (main e))). ?P x"
    unfolding tl using a b by auto
  then show ?thesis using mk by auto
qed

text \<open>
  In the run where every call succeeds, \<open>done\<close> is the fifteenth call, and both sockets
  are ready in the state it is made in.
\<close>

theorem announcement_readiness_witness:
  "exit_status (main ok_env) = 0 \<and> fresh_descriptors ok_env \<and>
   open_ret ok_env < 2 ^ 31 \<and> 30 \<le> sizeof_sun_path ok_env \<and>
   fst (main ok_env) ! 14 = Dprintf 1 ''done\<newline>'' \<and>
   ready (after (take 14 (fst (main ok_env))) boot) 4 3 ''data'' \<and>
   ready (after (take 14 (fst (main ok_env))) boot) 5 3 ''pass''"
proof -
  have h: "open_ret ok_env < 2 ^ 31" "30 \<le> sizeof_sun_path ok_env"
    by (simp_all add: ok_env_def)
  have r: "socket_ret (data_calls ok_env) = 4" "socket_ret (pass_calls ok_env) = 5"
    "open_ret ok_env = 3"
    by (simp_all add: ok_env_def ok_listen_def)
  let ?k = "after (take 14 (fst (main ok_env))) boot"
  have mem: "(?k, Dprintf 1 ''done\<newline>'') \<in> set (timeline boot (fst (main ok_env)))"
    using timeline_nth[OF done_ok_env(1), of boot] by (simp add: done_ok_env(2))
  from announcement_readiness[OF exit_ok_env fresh_ok_env h] obtain dir where
    t: "\<forall>(k, ev)\<in>set (timeline boot (fst (main ok_env))).
        (is_announce ev \<longrightarrow>
           ready k (socket_ret (data_calls ok_env)) (open_ret ok_env) ''data'' \<and>
           (ev \<noteq> Dprintf 1 (dir @ ''/data\<newline>'') \<longrightarrow>
              ready k (socket_ret (pass_calls ok_env)) (open_ret ok_env) ''pass'')) \<and>
        (is_accept ev \<longrightarrow> ready k (socket_ret (pass_calls ok_env)) (open_ret ok_env) ''pass'')"
    by blast
  have ne: "Dprintf 1 ''done\<newline>'' \<noteq> Dprintf 1 (dir @ ''/data\<newline>'')"
  proof
    assume "Dprintf 1 ''done\<newline>'' = Dprintf 1 (dir @ ''/data\<newline>'')"
    then have "length ''done\<newline>'' = length (dir @ ''/data\<newline>'')" by simp
    then show False by simp
  qed
  have "ready ?k 4 3 ''data'' \<and> ready ?k 5 3 ''pass''"
    using t mem ne unfolding r by fastforce
  then show ?thesis using exit_ok_env fresh_ok_env h done_ok_env(2) by blast
qed

subsection \<open>Order of the handoff\<close>

text \<open>
  Claim C2. In every successful run the trace ends with exactly these calls, in this
  order: one \<open>accept4\<close> on the "pass" socket with \<open>SOCK_CLOEXEC\<close> (and no \<open>accept4\<close>
  before it); the \<open>close\<close> of the "pass" socket, on which nothing else is called
  afterwards; \<open>unlinkat\<close> of the name \<open>pass\<close> relative to the directory handle;
  \<open>sendmsg\<close> of the control message on the accepted connection; the \<open>close\<close> of the
  accepted connection; \<open>free\<close> of the directory path; the \<open>close\<close> of the "data"
  socket; the \<open>close\<close> of the directory handle. Each of these calls succeeded and
  \<open>main\<close> returns 0.
\<close>

theorem handoff_order:
  assumes "exit_status (main e) = 0"
  shows "\<exists>pre dir ta tb datasock passsock.
     snd (make_private_dir e) = Returns dir \<and>
     listen_unix_socket (sizeof_sun_path e) (data_calls e) (open_ret e) ''data''
       = (ta, Returns datasock) \<and>
     listen_unix_socket (sizeof_sun_path e) (pass_calls e) (open_ret e) ''pass''
       = (tb, Returns passsock) \<and>
     fst (main e) =
       pre @ [Accept4 passsock {SOCK_CLOEXEC} (accept4_ret e),
              Close passsock (close_passsock_ret e),
              Unlinkat (open_ret e) ''pass'' 0 (unlinkat_ret e),
              Sendmsg (accept4_ret e) (handoff_msg datasock) 0 (sendmsg_ret e),
              Close (accept4_ret e) (close_connsock_ret e),
              Free dir,
              Close datasock (close_datasock_ret e),
              Close (open_ret e) (close_dirfd_ret e)] \<and>
     Open_dir dir {O_DIRECTORY, O_CLOEXEC} (open_ret e) \<in> set pre \<and>
     (\<forall>ev\<in>set pre. \<not> is_accept ev) \<and>
     0 \<le> accept4_ret e \<and> 0 \<le> close_passsock_ret e \<and> 0 \<le> unlinkat_ret e \<and>
     0 \<le> sendmsg_ret e \<and> 0 \<le> close_connsock_ret e \<and> 0 \<le> close_datasock_ret e \<and>
     0 \<le> close_dirfd_ret e \<and>
     snd (main e) = Returns 0"
proof -
  from main_success[OF assms] obtain t0 dir where
    mk: "make_private_dir e = (t0, Returns dir)" and ok: "rest_ok e" and
    m: "main e = (t0 @ straight_line e dir, Returns 0)" by blast
  let ?sz = "sizeof_sun_path e" and ?d = "open_ret e"
  let ?ta = "listen_calls ?sz (data_calls e) ?d ''data''"
  let ?tb = "listen_calls ?sz (pass_calls e) ?d ''pass''"
  let ?pre = "t0 @ [Open_dir dir {O_DIRECTORY, O_CLOEXEC} ?d] @ ?ta @
     [Dprintf 1 (dir @ ''/data\<newline>'')] @ ?tb @
     [Dprintf 1 (dir @ ''/pass\<newline>''), Dprintf 1 ''done\<newline>'', Close 1 (close_stdout_ret e)]"
  have la: "listen_unix_socket ?sz (data_calls e) ?d ''data'' = (?ta, Returns (socket_ret (data_calls e)))"
    and lb: "listen_unix_socket ?sz (pass_calls e) ?d ''pass'' = (?tb, Returns (socket_ret (pass_calls e)))"
    using ok by (simp_all add: rest_ok_def listen_unix_socket_ok)
  have prov: "\<forall>ev\<in>set t0. provisioning ev" using make_private_dir_events[OF mk] by blast
  have na0: "\<forall>ev\<in>set t0. \<not> is_accept ev"
  proof
    fix ev assume "ev \<in> set t0"
    then have "provisioning ev" using prov by blast
    then show "\<not> is_accept ev" by (cases ev) auto
  qed
  have na: "\<forall>ev\<in>set ?pre. \<not> is_accept ev"
    using na0 by (auto simp: listen_calls_def)
  have tr: "fst (main e) = ?pre @ [Accept4 (socket_ret (pass_calls e)) {SOCK_CLOEXEC} (accept4_ret e),
              Close (socket_ret (pass_calls e)) (close_passsock_ret e),
              Unlinkat (open_ret e) ''pass'' 0 (unlinkat_ret e),
              Sendmsg (accept4_ret e) (handoff_msg (socket_ret (data_calls e))) 0 (sendmsg_ret e),
              Close (accept4_ret e) (close_connsock_ret e),
              Free dir,
              Close (socket_ret (data_calls e)) (close_datasock_ret e),
              Close (open_ret e) (close_dirfd_ret e)]"
    by (simp add: m straight_line_def)
  have op: "Open_dir dir {O_DIRECTORY, O_CLOEXEC} (open_ret e) \<in> set ?pre" by simp
  have rets: "0 \<le> accept4_ret e \<and> 0 \<le> close_passsock_ret e \<and> 0 \<le> unlinkat_ret e \<and>
     0 \<le> sendmsg_ret e \<and> 0 \<le> close_connsock_ret e \<and> 0 \<le> close_datasock_ret e \<and>
     0 \<le> close_dirfd_ret e" using ok by (simp add: rest_ok_def)
  have sm: "snd (main e) = Returns 0" "snd (make_private_dir e) = Returns dir" by (simp_all add: m mk)
  show ?thesis
    using sm la lb tr op na rets by blast
qed

theorem handoff_order_witness:
  "exit_status (main ok_env) = 0 \<and>
   (\<exists>pre. fst (main ok_env) =
       pre @ [Accept4 5 {SOCK_CLOEXEC} 1, Close 5 0, Unlinkat 3 ''pass'' 0 0,
              Sendmsg 1 (handoff_msg 4) 0 1, Close 1 0, Free ok_dir, Close 4 0, Close 3 0]) \<and>
   snd (main ok_env) = Returns 0"
proof -
  from handoff_order[OF exit_ok_env] obtain pre dir ta tb datasock passsock where
    h: "snd (make_private_dir ok_env) = Returns dir"
      "listen_unix_socket (sizeof_sun_path ok_env) (data_calls ok_env) (open_ret ok_env) ''data''
       = (ta, Returns datasock)"
      "listen_unix_socket (sizeof_sun_path ok_env) (pass_calls ok_env) (open_ret ok_env) ''pass''
       = (tb, Returns passsock)"
      "fst (main ok_env) =
       pre @ [Accept4 passsock {SOCK_CLOEXEC} (accept4_ret ok_env),
              Close passsock (close_passsock_ret ok_env),
              Unlinkat (open_ret ok_env) ''pass'' 0 (unlinkat_ret ok_env),
              Sendmsg (accept4_ret ok_env) (handoff_msg datasock) 0 (sendmsg_ret ok_env),
              Close (accept4_ret ok_env) (close_connsock_ret ok_env),
              Free dir,
              Close datasock (close_datasock_ret ok_env),
              Close (open_ret ok_env) (close_dirfd_ret ok_env)]"
      "snd (main ok_env) = Returns 0"
    by blast
  have d: "dir = ok_dir" using h(1) by (simp add: make_private_dir_ok_env)
  have a: "datasock = 4" using listen_unix_socket_Returns[OF h(2)] by (simp add: ok_env_def ok_listen_def)
  have b: "passsock = 5" using listen_unix_socket_Returns[OF h(3)] by (simp add: ok_env_def ok_listen_def)
  have "fst (main ok_env) =
       pre @ [Accept4 5 {SOCK_CLOEXEC} 1, Close 5 0, Unlinkat 3 ''pass'' 0 0,
              Sendmsg 1 (handoff_msg 4) 0 1, Close 1 0, Free ok_dir, Close 4 0, Close 3 0]"
    using h(4) unfolding d a b by (simp add: ok_env_def)
  then show ?thesis using exit_ok_env h(5) by blast
qed

subsection \<open>The control message\<close>

text \<open>
  Claim C3. In every successful run the trace holds exactly one \<open>sendmsg\<close>, made on
  the descriptor that the single \<open>accept4\<close> on the "pass" socket returned. Its
  message has one \<open>iovec\<close> of one byte and one control block, of level \<open>SOL_SOCKET\<close>
  and type \<open>SCM_RIGHTS\<close>, whose payload is the one descriptor that
  \<open>listen_unix_socket\<close> returned for the name \<open>data\<close>. No other call of the program
  sends anything to the peer.
\<close>

theorem single_descriptor_message:
  assumes "exit_status (main e) = 0"
  shows "\<exists>ta tb datasock passsock.
     listen_unix_socket (sizeof_sun_path e) (data_calls e) (open_ret e) ''data''
       = (ta, Returns datasock) \<and>
     listen_unix_socket (sizeof_sun_path e) (pass_calls e) (open_ret e) ''pass''
       = (tb, Returns passsock) \<and>
     filter is_accept (fst (main e)) = [Accept4 passsock {SOCK_CLOEXEC} (accept4_ret e)] \<and>
     0 \<le> accept4_ret e \<and>
     filter is_sendmsg (fst (main e)) =
       [Sendmsg (accept4_ret e)
          \<lparr>msg_name = None,
           msg_iov = [[CHR 0x00]],
           msg_control =
             [\<lparr>cmsg_level = SOL_SOCKET, cmsg_type = SCM_RIGHTS, cmsg_data = [datasock]\<rparr>],
           msg_flags = 0\<rparr>
          0 (sendmsg_ret e)] \<and>
     0 \<le> sendmsg_ret e"
proof -
  from main_success[OF assms] obtain t0 dir where
    mk: "make_private_dir e = (t0, Returns dir)" and ok: "rest_ok e" and
    m: "main e = (t0 @ straight_line e dir, Returns 0)" by blast
  have prov: "\<forall>ev\<in>set t0. provisioning ev" using make_private_dir_events[OF mk] by blast
  have la: "listen_unix_socket (sizeof_sun_path e) (data_calls e) (open_ret e) ''data''
      = (listen_calls (sizeof_sun_path e) (data_calls e) (open_ret e) ''data'',
         Returns (socket_ret (data_calls e)))"
    and lb: "listen_unix_socket (sizeof_sun_path e) (pass_calls e) (open_ret e) ''pass''
      = (listen_calls (sizeof_sun_path e) (pass_calls e) (open_ret e) ''pass'',
         Returns (socket_ret (pass_calls e)))"
    using ok by (simp_all add: rest_ok_def listen_unix_socket_ok)
  have acc: "filter is_accept (fst (main e)) =
      [Accept4 (socket_ret (pass_calls e)) {SOCK_CLOEXEC} (accept4_ret e)]"
    by (simp add: m provisioning_trace(4)[OF prov] straight_line_def listen_calls_def)
  have snd: "filter is_sendmsg (fst (main e)) =
      [Sendmsg (accept4_ret e) (handoff_msg (socket_ret (data_calls e))) 0 (sendmsg_ret e)]"
    by (simp add: m provisioning_trace(2)[OF prov] straight_line_def listen_calls_def)
  have rets: "0 \<le> accept4_ret e" "0 \<le> sendmsg_ret e" using ok by (simp_all add: rest_ok_def)
  show ?thesis
    using la lb acc snd[unfolded handoff_msg_def] rets by blast
qed

theorem single_descriptor_message_witness:
  "exit_status (main ok_env) = 0 \<and>
   filter is_sendmsg (fst (main ok_env)) =
     [Sendmsg 1
        \<lparr>msg_name = None, msg_iov = [[CHR 0x00]],
         msg_control = [\<lparr>cmsg_level = SOL_SOCKET, cmsg_type = SCM_RIGHTS, cmsg_data = [4]\<rparr>],
         msg_flags = 0\<rparr>
        0 1]"
proof -
  from single_descriptor_message[OF exit_ok_env] obtain ta datasock where
    h: "listen_unix_socket (sizeof_sun_path ok_env) (data_calls ok_env) (open_ret ok_env) ''data''
       = (ta, Returns datasock)"
     "filter is_sendmsg (fst (main ok_env)) =
       [Sendmsg (accept4_ret ok_env)
          \<lparr>msg_name = None,
           msg_iov = [[CHR 0x00]],
           msg_control =
             [\<lparr>cmsg_level = SOL_SOCKET, cmsg_type = SCM_RIGHTS, cmsg_data = [datasock]\<rparr>],
           msg_flags = 0\<rparr>
          0 (sendmsg_ret ok_env)]"
    by blast
  have a: "datasock = 4"
    using listen_unix_socket_Returns[OF h(1)] by (simp add: ok_env_def ok_listen_def)
  show ?thesis using exit_ok_env h(2) unfolding a by (simp add: ok_env_def)
qed

subsection \<open>The announcement\<close>

text \<open>
  Claim C4 as stated fails. With \<open>XDG_RUNTIME_DIR=rel\<close> every call can succeed, the
  run ends with status 0, and the two paths it writes are relative. With a newline
  inside \<open>TMPDIR\<close> the run ends with status 0 and what it writes has five newline
  characters, not three.
\<close>

theorem announcement_relative_or_more_lines:
  "exit_status (main relative_base_env) = 0 \<and>
   stdout_writes (fst (main relative_base_env)) =
     [''rel/a1B2c3/data\<newline>'', ''rel/a1B2c3/pass\<newline>'', ''done\<newline>''] \<and>
   \<not> three_absolute_lines (stdout_writes (fst (main relative_base_env))) \<and>
   exit_status (main newline_base_env) = 0 \<and>
   newlines (concat (stdout_writes (fst (main newline_base_env)))) = 5 \<and>
   \<not> three_absolute_lines (stdout_writes (fst (main newline_base_env)))"
  by (simp add: main_relative_base_env main_newline_base_env three_absolute_lines_def
      absolute_def newlines_def)

text \<open>
  Claim C4, as amended. In every successful run the program hands exactly three strings
  to \<open>dprintf\<close> on descriptor 1, in this order: the private directory path followed
  by \<open>/data\<close> and a newline, the same path followed by \<open>/pass\<close> and a newline, and
  \<open>done\<close> with a newline. The private directory path is the base directory taken from
  the environment, a slash and the suffix chosen by \<open>mkdtemp\<close>. The two paths are
  absolute exactly when the base directory is absolute or empty, and the three strings
  hold exactly three newlines plus two for each newline in the directory path; so they
  are three lines with two absolute paths exactly when the base directory is absolute or
  empty and the directory path holds no newline. The call right after the third write
  is \<open>close(1)\<close>, which succeeds, the call right after that is the first \<open>accept4\<close>,
  and nothing is written afterwards. Whether the writes themselves succeeded is not
  part of the statement: the source does not look at what \<open>dprintf\<close> returns.
\<close>

theorem announcement_lines:
  assumes "exit_status (main e) = 0"
  shows "\<exists>dir sfx pre post.
     snd (make_private_dir e) = Returns dir \<and>
     mkdtemp_pick e = Some sfx \<and> dir = base_dir e @ ''/'' @ sfx \<and>
     stdout_writes (fst (main e)) =
       [dir @ ''/data\<newline>'', dir @ ''/pass\<newline>'', ''done\<newline>''] \<and>
     (absolute (dir @ ''/data\<newline>'') \<longleftrightarrow> base_dir e = [] \<or> absolute (base_dir e)) \<and>
     (absolute (dir @ ''/pass\<newline>'') \<longleftrightarrow> base_dir e = [] \<or> absolute (base_dir e)) \<and>
     newlines (concat (stdout_writes (fst (main e)))) = 3 + 2 * newlines dir \<and>
     (three_absolute_lines (stdout_writes (fst (main e))) \<longleftrightarrow>
        (base_dir e = [] \<or> absolute (base_dir e)) \<and> newlines dir = 0) \<and>
     fst (main e) =
       pre @ [Dprintf 1 ''done\<newline>'',
              Close 1 (close_stdout_ret e),
              Accept4 (socket_ret (pass_calls e)) {SOCK_CLOEXEC} (accept4_ret e)] @ post \<and>
     0 \<le> close_stdout_ret e \<and>
     filter is_accept pre = [] \<and>
     stdout_writes post = []"
proof -
  from main_success[OF assms] obtain t0 dir where
    mk: "make_private_dir e = (t0, Returns dir)" and ok: "rest_ok e" and
    m: "main e = (t0 @ straight_line e dir, Returns 0)" by blast
  have prov: "\<forall>ev\<in>set t0. provisioning ev" using make_private_dir_events[OF mk] by blast
  from make_private_dir_Returns[OF mk] obtain sfx where
    sfx: "mkdtemp_pick e = Some sfx" "dir = base_dir e @ ''/'' @ sfx" by blast
  let ?pre = "t0 @ [Open_dir dir {O_DIRECTORY, O_CLOEXEC} (open_ret e)] @
     listen_calls (sizeof_sun_path e) (data_calls e) (open_ret e) ''data'' @
     [Dprintf 1 (dir @ ''/data\<newline>'')] @
     listen_calls (sizeof_sun_path e) (pass_calls e) (open_ret e) ''pass'' @
     [Dprintf 1 (dir @ ''/pass\<newline>'')]"
  let ?post = "[Close (socket_ret (pass_calls e)) (close_passsock_ret e),
      Unlinkat (open_ret e) ''pass'' 0 (unlinkat_ret e),
      Sendmsg (accept4_ret e) (handoff_msg (socket_ret (data_calls e))) 0 (sendmsg_ret e),
      Close (accept4_ret e) (close_connsock_ret e),
      Free dir,
      Close (socket_ret (data_calls e)) (close_datasock_ret e),
      Close (open_ret e) (close_dirfd_ret e)]"
  let ?abs = "base_dir e = [] \<or> absolute (base_dir e)"
  have w0: "concat (map (written 1) t0) = []"
    using provisioning_trace(1)[OF prov] by (simp add: stdout_writes_def)
  have wr: "stdout_writes (fst (main e)) =
       [dir @ ''/data\<newline>'', dir @ ''/pass\<newline>'', ''done\<newline>'']"
    by (simp add: m stdout_writes_def w0 straight_line_def listen_calls_def)
  have tr: "fst (main e) = ?pre @ [Dprintf 1 ''done\<newline>'', Close 1 (close_stdout_ret e),
              Accept4 (socket_ret (pass_calls e)) {SOCK_CLOEXEC} (accept4_ret e)] @ ?post"
    by (simp add: m straight_line_def)
  have na: "filter is_accept ?pre = []"
    by (simp add: provisioning_trace(4)[OF prov] listen_calls_def)
  have wp: "stdout_writes ?post = []" by (simp add: stdout_writes_def)
  have a1: "absolute (dir @ ''/data\<newline>'') \<longleftrightarrow> ?abs"
    unfolding sfx(2) by (rule absolute_private_dir)
  have a2: "absolute (dir @ ''/pass\<newline>'') \<longleftrightarrow> ?abs"
    unfolding sfx(2) by (rule absolute_private_dir)
  have nl: "newlines (concat (stdout_writes (fst (main e)))) = 3 + 2 * newlines dir"
    unfolding wr by (simp add: newlines_simps)
  have three: "three_absolute_lines (stdout_writes (fst (main e))) \<longleftrightarrow> ?abs \<and> newlines dir = 0"
    unfolding three_absolute_lines_def nl unfolding wr using a1 a2 by simp
  have r: "0 \<le> close_stdout_ret e" using ok by (simp add: rest_ok_def)
  have sm: "snd (make_private_dir e) = Returns dir" by (simp add: mk)
  show ?thesis
    using sm sfx wr a1 a2 nl three tr r na wp by blast
qed

theorem announcement_lines_witness:
  "exit_status (main ok_env) = 0 \<and>
   stdout_writes (fst (main ok_env)) =
     [''/run/user/1000/a1B2c3/data\<newline>'', ''/run/user/1000/a1B2c3/pass\<newline>'', ''done\<newline>''] \<and>
   three_absolute_lines (stdout_writes (fst (main ok_env))) \<and>
   (\<exists>pre post. fst (main ok_env) =
      pre @ [Dprintf 1 ''done\<newline>'', Close 1 0, Accept4 5 {SOCK_CLOEXEC} 1] @ post)"
proof -
  from announcement_lines[OF exit_ok_env] obtain dir pre post where
    h: "snd (make_private_dir ok_env) = Returns dir"
       "stdout_writes (fst (main ok_env)) =
          [dir @ ''/data\<newline>'', dir @ ''/pass\<newline>'', ''done\<newline>'']"
       "three_absolute_lines (stdout_writes (fst (main ok_env))) \<longleftrightarrow>
          (base_dir ok_env = [] \<or> absolute (base_dir ok_env)) \<and> newlines dir = 0"
       "fst (main ok_env) =
          pre @ [Dprintf 1 ''done\<newline>'',
              Close 1 (close_stdout_ret ok_env),
              Accept4 (socket_ret (pass_calls ok_env)) {SOCK_CLOEXEC} (accept4_ret ok_env)] @ post"
    by blast
  have d: "dir = ''/run/user/1000/a1B2c3''"
    using h(1) by (simp add: make_private_dir_ok_env ok_dir_def)
  have b: "absolute (base_dir ok_env)" by (simp add: base_dir_def ok_env_def absolute_def)
  have n: "newlines dir = 0" unfolding d by (simp add: newlines_def)
  have t: "three_absolute_lines (stdout_writes (fst (main ok_env)))"
    using h(3) b n by blast
  have "fst (main ok_env) = pre @ [Dprintf 1 ''done\<newline>'', Close 1 0, Accept4 5 {SOCK_CLOEXEC} 1] @ post"
    using h(4) by (simp add: ok_env_def ok_listen_def)
  then show ?thesis using exit_ok_env h(2) t unfolding d by auto
qed

subsection \<open>Failure while binding\<close>

text \<open>
  Claim C5 as stated fails: in the run where \<open>bind\<close> fails for the "pass" socket, a
  binding step has failed and the line with the "data" path has already been written to
  standard output.
\<close>

theorem data_line_printed_before_pass_bind_fails:
  "binding_step_failed (fst (main pass_bind_fails_env)) \<and>
   stdout_writes (fst (main pass_bind_fails_env)) = [''/run/user/1000/a1B2c3/data\<newline>'']"
  by (simp add: main_pass_bind_fails_env ok_pre_def ok_dir_def stdout_writes_simps
      binding_step_failed_simps)

text \<open>
  Claim C5, as amended. In every run in which a \<open>socket\<close>, \<open>bind\<close> or \<open>listen\<close> call
  returns an error, the exit status is 1, the private directory had been created, and
  what has been written to standard output is nothing at all if the failure is in the
  \<open>listen_unix_socket\<close> of the "data" socket, and exactly the line with the "data" path
  if that call had returned, so that the failure is in the one of the "pass" socket. The
  line with the "pass" path and the line \<open>done\<close> are never written.
\<close>

theorem binding_failure_outcome:
  assumes "binding_step_failed (fst (main e))"
  shows "exit_status (main e) = 1 \<and>
     (\<exists>dir. snd (make_private_dir e) = Returns dir \<and>
        stdout_writes (fst (main e)) =
          (case snd (listen_unix_socket (sizeof_sun_path e) (data_calls e) (open_ret e) ''data'') of
             Exit st \<Rightarrow> []
           | Returns datasock \<Rightarrow> [dir @ ''/data\<newline>'']))"
proof (cases "make_private_dir e")
  case (Pair t0 r0)
  note q = make_private_dir_quiet[OF Pair]
  show ?thesis
  proof (cases r0)
    case (Exit st)
    then have "fst (main e) = t0" by (simp add: main_shape Pair)
    then show ?thesis using assms q(2) by simp
  next
    case (Returns dir)
    show ?thesis
      using assms
      by (simp add: main_shape Pair Returns stdout_writes_simps binding_step_failed_simps q
          listen_unix_socket_quiet listen_calls_quiet listen_calls_not_failed
          main_from_line_57_quiet listen_unix_socket_fail listen_unix_socket_ok
          split: if_splits)
  qed
qed

theorem binding_failure_outcome_witness:
  "binding_step_failed (fst (main data_socket_fails_env)) \<and>
   exit_status (main data_socket_fails_env) = 1 \<and>
   stdout_writes (fst (main data_socket_fails_env)) = []"
proof -
  have f: "binding_step_failed (fst (main data_socket_fails_env))"
    by (simp add: main_data_socket_fails_env ok_pre_def binding_step_failed_simps)
  have nok: "\<not> listen_ok (data_calls data_socket_fails_env)"
    by (simp add: data_socket_fails_env_def ok_env_def ok_listen_def listen_ok_def)
  from binding_failure_outcome[OF f] show ?thesis
    using f by (auto simp: listen_unix_socket_fail[OF nok])
qed

subsection \<open>Diagnostics\<close>

text \<open>
  Claim C6. A failing run should end with a diagnostic that names the call that failed.
  In the run below every call succeeds up to and including the \<open>close\<close> of the
  accepted connection (descriptor 1); then the \<open>close\<close> of the "data" socket
  (descriptor 4) returns an error, and the message handed to \<open>err\<close> is
  \<open>close(connsock)\<close>: it names the call before, which succeeded. The same message
  is given when it is the \<open>close\<close> of the directory handle (descriptor 3) that
  fails. The exit status is 1 in both runs.
\<close>

theorem close_datasock_misreported:
  "snd (main datasock_close_fails_env) = Exit 1 \<and>
   drop 20 (fst (main datasock_close_fails_env)) =
     [Close 1 0, Free ok_dir, Close 4 (- 1), Err 1 ''close(connsock)''] \<and>
   snd (main dirfd_close_fails_env) = Exit 1 \<and>
   drop 20 (fst (main dirfd_close_fails_env)) =
     [Close 1 0, Free ok_dir, Close 4 0, Close 3 (- 1), Err 1 ''close(connsock)'']"
  by (simp add: main_def make_private_dir_def listen_unix_socket_def datasock_close_fails_env_def
      dirfd_close_fails_env_def ok_env_def ok_listen_def ok_dir_def Let_def proc_fd_path_3
      snprintf_stored_def)

subsection \<open>The mode of the directory handle\<close>

text \<open>
  Claim C7, as amended. Every \<open>open\<close> in a run of \<open>main\<close> opens the path returned by
  \<open>make_private_dir\<close>, yields the directory handle, and carries exactly the flags
  \<open>O_DIRECTORY\<close> and \<open>O_CLOEXEC\<close>: the handle is not inherited across \<open>exec\<close>, the
  path must name a directory, and \<open>O_NOFOLLOW\<close> is not among the flags.
\<close>

theorem directory_handle_mode:
  assumes "Open_dir p fl r \<in> set (fst (main e))"
  shows "snd (make_private_dir e) = Returns p \<and> r = open_ret e \<and>
         fl = {O_DIRECTORY, O_CLOEXEC} \<and> O_CLOEXEC \<in> fl \<and> O_NOFOLLOW \<notin> fl"
  using main_opens[OF assms] by simp

theorem directory_handle_mode_witness:
  "Open_dir ok_dir {O_DIRECTORY, O_CLOEXEC} 3 \<in> set (fst (main ok_env)) \<and>
   snd (make_private_dir ok_env) = Returns ok_dir \<and> 3 = open_ret ok_env \<and>
   O_CLOEXEC \<in> {O_DIRECTORY, O_CLOEXEC} \<and> O_NOFOLLOW \<notin> {O_DIRECTORY, O_CLOEXEC}"
proof -
  have m: "Open_dir ok_dir {O_DIRECTORY, O_CLOEXEC} 3 \<in> set (fst (main ok_env))"
    by (simp add: trace_ok_env straight_line_ok_env)
  from directory_handle_mode[OF m] show ?thesis using m by simp
qed

text \<open>
  Claim C7 as stated fails: in the run where every call succeeds, the one \<open>open\<close> does
  not ask for \<open>O_NOFOLLOW\<close>.
\<close>

theorem directory_opened_without_nofollow:
  "\<not> opened_nofollow_cloexec (fst (main ok_env))"
  by (simp add: opened_nofollow_cloexec_def open_modes_ok_env)

subsection \<open>The socket binder\<close>

text \<open>
  Claim C8 as stated fails for a name that does not fit: with a \<open>sun_path\<close> of 108
  bytes, directory handle 3 and a name of 200 characters, \<open>listen_unix_socket\<close>
  returns a socket, and the one path it handed to \<open>bind\<close> is not
  \<open>/proc/self/fd/3/<name>\<close>.
\<close>

theorem long_name_bound_truncated:
  "snd (listen_unix_socket 108 (ok_listen 4) 3 long_name) = Returns 4 \<and>
   bind_paths (fst (listen_unix_socket 108 (ok_listen 4) 3 long_name))
     \<noteq> [proc_fd_path 3 long_name]"
proof -
  have ok: "listen_ok (ok_listen 4)" by (simp add: listen_ok_def ok_listen_def)
  have ne: "snprintf_stored 108 (proc_fd_path 3 long_name) \<noteq> proc_fd_path 3 long_name"
    by (simp add: snprintf_stored_eq length_long_path)
  have l: "listen_unix_socket 108 (ok_listen 4) 3 long_name =
      (listen_calls 108 (ok_listen 4) 3 long_name, Returns (socket_ret (ok_listen 4)))"
    by (rule listen_unix_socket_ok[OF ok])
  have r: "socket_ret (ok_listen 4) = 4" by (simp add: ok_listen_def)
  show ?thesis
    using ne by (simp add: l r listen_calls_def bind_paths_def)
qed

text \<open>
  Claim C8, as amended. Whenever \<open>/proc/self/fd/<dirfd>/<name>\<close> with its terminating
  NUL fits into \<open>sun_path\<close> and \<open>listen_unix_socket\<close> returns a descriptor, its calls
  were exactly: the formatting of that path, \<open>socket(AF_UNIX, SOCK_STREAM, 0)\<close>
  returning the descriptor, \<open>bind\<close> of the descriptor to that path, and \<open>listen\<close>
  with backlog 10, each of them successful. If \<open>dirfd\<close> is the handle of the private
  directory, then afterwards the name is an entry of the directory and the descriptor is
  an open socket bound to the path, listening with backlog 10, with no connection
  accepted.
\<close>

theorem listen_unix_socket_result:
  assumes "listen_unix_socket sz le dirfd name = (t, Returns fd)"
    and "length (proc_fd_path dirfd name) < sz"
    and "dir_handle k = Some dirfd"
  shows "t = [Snprintf sz (proc_fd_path dirfd name) (proc_fd_path dirfd name)
                (int (length (proc_fd_path dirfd name))),
              Socket AF_UNIX SOCK_STREAM 0 fd,
              Bind fd \<lparr>sun_family = AF_UNIX, sun_path = proc_fd_path dirfd name\<rparr> (bind_ret le),
              Listen fd 10 (listen_ret le)] \<and>
         0 \<le> fd \<and> 0 \<le> bind_ret le \<and> 0 \<le> listen_ret le \<and>
         ready (after t k) fd dirfd name"
proof -
  from listen_unix_socket_Returns[OF assms(1)] have
    ok: "listen_ok le" and fd: "fd = socket_ret le" and t: "t = listen_calls sz le dirfd name"
    by simp_all
  have fit: "snprintf_stored sz (proc_fd_path dirfd name) = proc_fd_path dirfd name"
    using assms(2) by (simp add: snprintf_stored_eq)
  have rets: "\<not> socket_ret le < 0" "\<not> bind_ret le < 0" "\<not> listen_ret le < 0"
    using ok by (simp_all add: listen_ok_def)
  have rdy: "ready (after t k) fd dirfd name"
    by (simp add: t fd listen_calls_def fit rets entry_name_proc assms(3) ready_def new_sock_def)
  have tr: "t = [Snprintf sz (proc_fd_path dirfd name) (proc_fd_path dirfd name)
                (int (length (proc_fd_path dirfd name))),
              Socket AF_UNIX SOCK_STREAM 0 fd,
              Bind fd \<lparr>sun_family = AF_UNIX, sun_path = proc_fd_path dirfd name\<rparr> (bind_ret le),
              Listen fd 10 (listen_ret le)]"
    by (simp add: t fd listen_calls_def fit)
  have nn: "0 \<le> fd" "0 \<le> bind_ret le" "0 \<le> listen_ret le"
    using ok by (simp_all add: fd listen_ok_def)
  show ?thesis using tr nn rdy by blast
qed

theorem listen_unix_socket_result_witness:
  "listen_unix_socket 108 (ok_listen 4) 3 ''data'' =
     (listen_calls 108 (ok_listen 4) 3 ''data'', Returns 4) \<and>
   length (proc_fd_path 3 ''data'') < 108 \<and>
   dir_handle (boot\<lparr>dir_handle := Some 3\<rparr>) = Some 3 \<and>
   ready (after (listen_calls 108 (ok_listen 4) 3 ''data'') (boot\<lparr>dir_handle := Some 3\<rparr>))
     4 3 ''data''"
proof -
  have ok: "listen_ok (ok_listen 4)" by (simp add: listen_ok_def ok_listen_def)
  have r: "socket_ret (ok_listen 4) = 4" by (simp add: ok_listen_def)
  have l: "listen_unix_socket 108 (ok_listen 4) 3 ''data'' =
     (listen_calls 108 (ok_listen 4) 3 ''data'', Returns 4)"
    using listen_unix_socket_ok[OF ok, of 108 3 "''data''"] by (simp add: r)
  have f: "length (proc_fd_path 3 ''data'') < 108" by (simp add: proc_fd_path_3)
  have d: "dir_handle (boot\<lparr>dir_handle := Some 3\<rparr>) = Some 3" by simp
  from listen_unix_socket_result[OF l f d]
  have rdy: "ready (after (listen_calls 108 (ok_listen 4) 3 ''data'')
      (boot\<lparr>dir_handle := Some 3\<rparr>)) 4 3 ''data''"
    by blast
  show ?thesis using l f d rdy by blast
qed

subsection \<open>What the program removes\<close>

text \<open>
  Claim C9. The only call of the source that removes a file system entry is the
  \<open>unlinkat\<close> at line 61. In every run there is at most one such call; it names the
  entry \<open>pass\<close> relative to the directory handle, with flags 0 (so it cannot remove a
  directory), and it comes right after the successful \<open>accept4\<close> on the "pass" socket
  and the \<open>close\<close> of that socket. Nothing removes the entry \<open>data\<close> or the private
  directory. After a successful run, in which the kernel handed out fresh descriptors,
  \<open>int\<close> has 32 bits and \<open>sun_path\<close> at least 30 bytes, the private directory holds
  the entry \<open>data\<close> and no entry \<open>pass\<close>.
\<close>

theorem only_pass_entry_removed:
  "(filter is_unlink (fst (main e)) = [] \<or>
    filter is_unlink (fst (main e)) = [Unlinkat (open_ret e) ''pass'' 0 (unlinkat_ret e)] \<and>
    0 \<le> accept4_ret e \<and>
    (\<exists>pre post. filter is_unlink pre = [] \<and>
       fst (main e) =
         pre @ [Accept4 (socket_ret (pass_calls e)) {SOCK_CLOEXEC} (accept4_ret e),
                Close (socket_ret (pass_calls e)) (close_passsock_ret e),
                Unlinkat (open_ret e) ''pass'' 0 (unlinkat_ret e)] @ post)) \<and>
   (exit_status (main e) = 0 \<and> fresh_descriptors e \<and> open_ret e < 2 ^ 31 \<and>
    30 \<le> sizeof_sun_path e \<longrightarrow>
      entries (after (fst (main e)) boot) = {''data''})"
proof
  show "filter is_unlink (fst (main e)) = [] \<or>
    filter is_unlink (fst (main e)) = [Unlinkat (open_ret e) ''pass'' 0 (unlinkat_ret e)] \<and>
    0 \<le> accept4_ret e \<and>
    (\<exists>pre post. filter is_unlink pre = [] \<and>
       fst (main e) =
         pre @ [Accept4 (socket_ret (pass_calls e)) {SOCK_CLOEXEC} (accept4_ret e),
                Close (socket_ret (pass_calls e)) (close_passsock_ret e),
                Unlinkat (open_ret e) ''pass'' 0 (unlinkat_ret e)] @ post)"
  proof (cases "make_private_dir e")
    case (Pair t0 r0)
    note q = make_private_dir_quiet[OF Pair]
    show ?thesis
    proof (cases r0)
      case (Exit st)
      then show ?thesis by (simp add: main_shape Pair q)
    next
      case (Returns dir)
      let ?tail = "main_from_line_57 e dir (open_ret e) (socket_ret (data_calls e))
                     (socket_ret (pass_calls e))"
      let ?head = "t0 @ [Open_dir dir {O_DIRECTORY, O_CLOEXEC} (open_ret e)] @
                 listen_calls (sizeof_sun_path e) (data_calls e) (open_ret e) ''data'' @
                 [Dprintf 1 (dir @ ''/data\<newline>'')] @
                 listen_calls (sizeof_sun_path e) (pass_calls e) (open_ret e) ''pass'' @
                 [Dprintf 1 (dir @ ''/pass\<newline>''), Dprintf 1 ''done\<newline>'']"
      show ?thesis
      proof (cases "0 \<le> open_ret e \<and> listen_ok (data_calls e) \<and> listen_ok (pass_calls e)")
        case False
        then have "filter is_unlink (fst (main e)) = []"
          by (auto simp: main_shape Pair Returns q listen_unix_socket_quiet listen_calls_quiet)
        then show ?thesis by simp
      next
        case True
        then have m: "fst (main e) = ?head @ fst ?tail"
          by (simp add: main_shape Pair Returns)
        have h: "filter is_unlink ?head = []" by (simp add: q listen_calls_quiet)
        from main_from_line_57_unlink[of e dir "open_ret e" "socket_ret (data_calls e)"
            "socket_ret (pass_calls e)"]
        show ?thesis
        proof
          assume "filter is_unlink (fst ?tail) = []"
          then have "filter is_unlink (fst (main e)) = []" unfolding m using h by simp
          then show ?thesis by simp
        next
          assume a: "0 \<le> accept4_ret e \<and> 0 \<le> close_passsock_ret e \<and>
            filter is_unlink (fst ?tail) = [Unlinkat (open_ret e) ''pass'' 0 (unlinkat_ret e)] \<and>
            (\<exists>post. fst ?tail =
              [Close 1 (close_stdout_ret e),
               Accept4 (socket_ret (pass_calls e)) {SOCK_CLOEXEC} (accept4_ret e),
               Close (socket_ret (pass_calls e)) (close_passsock_ret e),
               Unlinkat (open_ret e) ''pass'' 0 (unlinkat_ret e)] @ post)"
          then obtain post where post: "fst ?tail =
              [Close 1 (close_stdout_ret e),
               Accept4 (socket_ret (pass_calls e)) {SOCK_CLOEXEC} (accept4_ret e),
               Close (socket_ret (pass_calls e)) (close_passsock_ret e),
               Unlinkat (open_ret e) ''pass'' 0 (unlinkat_ret e)] @ post" by blast
          have u: "filter is_unlink (fst (main e)) =
              [Unlinkat (open_ret e) ''pass'' 0 (unlinkat_ret e)]"
            unfolding m using h a by simp
          have p: "filter is_unlink (?head @ [Close 1 (close_stdout_ret e)]) = []"
            using h by simp
          have d: "fst (main e) = (?head @ [Close 1 (close_stdout_ret e)]) @
               [Accept4 (socket_ret (pass_calls e)) {SOCK_CLOEXEC} (accept4_ret e),
                Close (socket_ret (pass_calls e)) (close_passsock_ret e),
                Unlinkat (open_ret e) ''pass'' 0 (unlinkat_ret e)] @ post"
            unfolding m post by simp
          show ?thesis using u a p d by blast
        qed
      qed
    qed
  qed
next
  show "exit_status (main e) = 0 \<and> fresh_descriptors e \<and> open_ret e < 2 ^ 31 \<and>
    30 \<le> sizeof_sun_path e \<longrightarrow>
      entries (after (fst (main e)) boot) = {''data''}"
  proof
    assume a: "exit_status (main e) = 0 \<and> fresh_descriptors e \<and> open_ret e < 2 ^ 31 \<and>
      30 \<le> sizeof_sun_path e"
    from main_success[of e] a obtain t0 dir where
      mk: "make_private_dir e = (t0, Returns dir)" and ok: "rest_ok e" and
      m: "main e = (t0 @ straight_line e dir, Returns 0)" by blast
    have "after (fst (main e)) boot = after (straight_line e dir) boot"
      by (simp add: m after_append make_private_dir_quiet(5)[OF mk])
    then show "entries (after (fst (main e)) boot) = {''data''}"
      using entries_after_straight_line[OF ok, of dir] a by simp
  qed
qed

theorem only_pass_entry_removed_witness:
  "exit_status (main ok_env) = 0 \<and> fresh_descriptors ok_env \<and> open_ret ok_env < 2 ^ 31 \<and>
   30 \<le> sizeof_sun_path ok_env \<and>
   filter is_unlink (fst (main ok_env)) = [Unlinkat 3 ''pass'' 0 0] \<and>
   entries (after (fst (main ok_env)) boot) = {''data''}"
proof -
  have h: "open_ret ok_env < 2 ^ 31" "30 \<le> sizeof_sun_path ok_env"
    by (simp_all add: ok_env_def)
  have u: "filter is_unlink (fst (main ok_env)) = [Unlinkat 3 ''pass'' 0 0]"
    by (simp add: trace_ok_env straight_line_ok_env ok_pre_def)
  from only_pass_entry_removed[of ok_env] show ?thesis
    using exit_ok_env fresh_ok_env h u by blast
qed

subsection \<open>Truncation of the bind address\<close>

text \<open>
  Claim C10. \<open>listen_unix_socket\<close> calls \<open>err\<close> for \<open>snprintf\<close> exactly when
  \<open>snprintf\<close> returned a negative value. Otherwise it stores the first
  \<open>sizeof(sun_path) - 1\<close> characters of \<open>/proc/self/fd/<dirfd>/<name>\<close>, goes on to
  \<open>socket\<close>, and every path it hands to \<open>bind\<close> is that stored string; when no call
  fails it returns the socket bound to it. The stored string is the whole path exactly
  when the path is shorter than \<open>sizeof(sun_path)\<close>.
\<close>

theorem address_truncated_silently:
  "(Err 1 ''snprintf'' \<in> set (fst (listen_unix_socket sz le dirfd name)) \<longleftrightarrow> snprintf_fails le) \<and>
   (\<not> snprintf_fails le \<longrightarrow>
      take 2 (fst (listen_unix_socket sz le dirfd name)) =
        [Snprintf sz (proc_fd_path dirfd name) (take (sz - 1) (proc_fd_path dirfd name))
           (int (length (proc_fd_path dirfd name))),
         Socket AF_UNIX SOCK_STREAM 0 (socket_ret le)]) \<and>
   (\<forall>p\<in>set (bind_paths (fst (listen_unix_socket sz le dirfd name))).
      p = take (sz - 1) (proc_fd_path dirfd name)) \<and>
   (listen_ok le \<longrightarrow>
      snd (listen_unix_socket sz le dirfd name) = Returns (socket_ret le) \<and>
      bind_paths (fst (listen_unix_socket sz le dirfd name))
        = [take (sz - 1) (proc_fd_path dirfd name)]) \<and>
   (take (sz - 1) (proc_fd_path dirfd name) = proc_fd_path dirfd name
      \<longleftrightarrow> length (proc_fd_path dirfd name) < sz)"
proof -
  have a: "Err 1 ''snprintf'' \<in> set (fst (listen_unix_socket sz le dirfd name)) \<longleftrightarrow> snprintf_fails le"
    by (simp add: listen_unix_socket_def Let_def)
  have b: "\<not> snprintf_fails le \<longrightarrow>
      take 2 (fst (listen_unix_socket sz le dirfd name)) =
        [Snprintf sz (proc_fd_path dirfd name) (take (sz - 1) (proc_fd_path dirfd name))
           (int (length (proc_fd_path dirfd name))),
         Socket AF_UNIX SOCK_STREAM 0 (socket_ret le)]"
    by (simp add: listen_unix_socket_def Let_def snprintf_stored_def)
  have c: "\<forall>p\<in>set (bind_paths (fst (listen_unix_socket sz le dirfd name))).
      p = take (sz - 1) (proc_fd_path dirfd name)"
    by (simp add: listen_unix_socket_def Let_def snprintf_stored_def bind_paths_def)
  have d: "listen_ok le \<longrightarrow>
      snd (listen_unix_socket sz le dirfd name) = Returns (socket_ret le) \<and>
      bind_paths (fst (listen_unix_socket sz le dirfd name))
        = [take (sz - 1) (proc_fd_path dirfd name)]"
    by (simp add: listen_unix_socket_ok listen_calls_def bind_paths_def snprintf_stored_def)
  have e: "take (sz - 1) (proc_fd_path dirfd name) = proc_fd_path dirfd name
      \<longleftrightarrow> length (proc_fd_path dirfd name) < sz"
    using snprintf_stored_eq[of sz dirfd name] by (simp add: snprintf_stored_def)
  show ?thesis using a b c d e by blast
qed

theorem address_truncated_silently_witness:
  "\<not> snprintf_fails (ok_listen 4) \<and> listen_ok (ok_listen 4) \<and>
   \<not> length (proc_fd_path 3 long_name) < 108 \<and>
   snd (listen_unix_socket 108 (ok_listen 4) 3 long_name) = Returns (socket_ret (ok_listen 4)) \<and>
   bind_paths (fst (listen_unix_socket 108 (ok_listen 4) 3 long_name))
     = [take (108 - 1) (proc_fd_path 3 long_name)] \<and>
   take (108 - 1) (proc_fd_path 3 long_name) \<noteq> proc_fd_path 3 long_name \<and>
   Err 1 ''snprintf'' \<notin> set (fst (listen_unix_socket 108 (ok_listen 4) 3 long_name))"
proof -
  have ok: "listen_ok (ok_listen 4)" "\<not> snprintf_fails (ok_listen 4)"
    by (simp_all add: listen_ok_def ok_listen_def)
  have len: "\<not> length (proc_fd_path 3 long_name) < 108" by (simp add: length_long_path)
  from address_truncated_silently[of 108 "ok_listen 4" 3 long_name] show ?thesis
    using ok len by blast
qed

end
